theory Spec2Isabelle
  imports Complex_Main "HOL-Library.Code_Target_Numeral"
begin

unbundle bit_operations_syntax

section \<open>Values returned by library calls\<close>

text \<open>
  A Go call \<open>v, err := f()\<close> returns a value together with an error; \<open>err == nil\<close>
  is \<open>None\<close>. The value is kept also when the error is set, because the program
  sometimes goes on with it (\<open>imei, _ := modem3gpp.GetImei()\<close>).
\<close>

type_synonym error = string
type_synonym 'a ret = "'a \<times> error option"

text \<open>
  \<open>float64\<close> values are only carried from the backend to the output and never computed
  with, except for the conversion \<open>float64(int64)\<close> below; finite values are read as reals.
\<close>

type_synonym float64 = real

section \<open>strconv.ParseUint and strconv.ParseInt\<close>

text \<open>
  The two functions of Go's standard library (strconv/atoi.go) that the collector calls
  as \<open>strconv.ParseInt(s, 16, 64)\<close> and \<open>strconv.ParseInt(s, 10, 32)\<close>, for an explicit
  base between 2 and 36 (base 0, which detects a prefix, is never requested here and is
  answered like any other base out of range). \<open>uint64\<close> values are naturals with the
  wrap-around written out.
\<close>

datatype NumError = ErrSyntax | ErrRange | ErrBase | ErrBitSize

definition maxUint64 :: nat where
  "maxUint64 = 2 ^ 64 - 1"

definition lower :: "nat \<Rightarrow> nat" where
  \<comment> \<open>\<open>c | ('x' - 'X')\<close>\<close>
  "lower c = c OR 32"

definition digit_val :: "nat \<Rightarrow> nat option" where
  \<comment> \<open>the \<open>switch\<close> of the loop body: the digit a byte stands for, \<open>None\<close> is the syntax error\<close>
  "digit_val c =
     (if 48 \<le> c \<and> c \<le> 57 then Some (c - 48)
      else if 97 \<le> lower c \<and> lower c \<le> 122 then Some (lower c - 97 + 10)
      else None)"

fun ParseUint_loop :: "nat \<Rightarrow> nat \<Rightarrow> nat \<Rightarrow> nat \<Rightarrow> string \<Rightarrow> nat \<times> NumError option" where
  "ParseUint_loop base cutoff maxVal n [] = (n, None)"
| "ParseUint_loop base cutoff maxVal n (c # cs) =
     (case digit_val (of_char c) of
        None \<Rightarrow> (0, Some ErrSyntax)
      | Some d \<Rightarrow>
          if d \<ge> base then (0, Some ErrSyntax)
          else if n \<ge> cutoff then (maxVal, Some ErrRange)
          else
            let n' = (n * base) mod 2 ^ 64;
                n1 = (n' + d) mod 2 ^ 64
            in if n1 < n' \<or> n1 > maxVal then (maxVal, Some ErrRange)
               else ParseUint_loop base cutoff maxVal n1 cs)"

definition ParseUint :: "string \<Rightarrow> nat \<Rightarrow> int \<Rightarrow> nat \<times> NumError option" where
  "ParseUint s base bitSize =
     (if s = [] then (0, Some ErrSyntax)
      else if \<not> (2 \<le> base \<and> base \<le> 36) then (0, Some ErrBase)
      else if bitSize < 0 \<or> bitSize > 64 then (0, Some ErrBitSize)
      else
        let bits = (if bitSize = 0 then 64 else nat bitSize);
            cutoff = maxUint64 div base + 1;
            maxVal = 2 ^ bits - 1
        in ParseUint_loop base cutoff maxVal 0 s)"

definition int64 :: "int \<Rightarrow> int" where
  \<comment> \<open>the value of an integer stored in 64 bits, two's complement\<close>
  "int64 x = (x + 2 ^ 63) mod 2 ^ 64 - 2 ^ 63"

definition ParseInt :: "string \<Rightarrow> nat \<Rightarrow> int \<Rightarrow> int \<times> NumError option" where
  "ParseInt s0 base bitSize =
     (if s0 = [] then (0, Some ErrSyntax)
      else
        let neg = (hd s0 = CHR ''-'');
            s = (if hd s0 = CHR ''+'' \<or> hd s0 = CHR ''-'' then tl s0 else s0);
            (un, err) = ParseUint s base bitSize
        in if err \<noteq> None \<and> err \<noteq> Some ErrRange then (0, err)
           else
             let bits = (if bitSize = 0 then 64 else nat bitSize);
                 cutoff = (2::nat) ^ (bits - 1)
             in if \<not> neg \<and> un \<ge> cutoff then (int64 (int cutoff - 1), Some ErrRange)
                else if neg \<and> un > cutoff then (int64 (- int64 (int cutoff)), Some ErrRange)
                else
                  let n = int64 (int un)
                  in (if neg then int64 (- n) else n, None))"

text \<open>
  The conversion \<open>float64(n)\<close> of an \<open>int64\<close>: the nearest value with 53 significant
  bits, ties to the even one. The result is again an integer.
\<close>

fun bitlen :: "nat \<Rightarrow> nat" where
  "bitlen n = (if n = 0 then 0 else Suc (bitlen (n div 2)))"

declare bitlen.simps [simp del]

definition round53 :: "nat \<Rightarrow> nat" where
  "round53 a =
     (if a < 2 ^ 53 then a
      else
        let e = bitlen a - 53;
            q = a div 2 ^ e;
            r = a mod 2 ^ e;
            half = 2 ^ (e - 1);
            q' = (if r > half \<or> (r = half \<and> odd q) then q + 1 else q)
        in q' * 2 ^ e)"

definition float64_of_int64 :: "int \<Rightarrow> float64" where
  "float64_of_int64 n = (if n < 0 then - real (round53 (nat (- n))) else real (round53 (nat n)))"

section \<open>The modem-management backend\<close>

text \<open>
  Modelled from the spec: the enumerations of the go-modemmanager library are not among
  the sources of the exporter. The spec (section 9) gives the order
  \<open>Unknown < Disabled < \<dots> < Registered < Connected\<close> of the operational states; the
  variants and numbers are those of ModemManager's \<open>MMModemState\<close>, and \<open>String()\<close>
  is the variant's name without its prefix, as the comparisons against \<open>"Disabled"\<close>,
  \<open>"Registered"\<close> and \<open>"Connected"\<close> in the collector expect.
\<close>

datatype MMModemState =
    MmModemStateFailed | MmModemStateUnknown | MmModemStateInitializing
  | MmModemStateLocked | MmModemStateDisabled | MmModemStateDisabling
  | MmModemStateEnabling | MmModemStateEnabled | MmModemStateSearching
  | MmModemStateRegistered | MmModemStateDisconnecting | MmModemStateConnecting
  | MmModemStateConnected

fun state_num :: "MMModemState \<Rightarrow> int" where
  "state_num MmModemStateFailed = - 1"
| "state_num MmModemStateUnknown = 0"
| "state_num MmModemStateInitializing = 1"
| "state_num MmModemStateLocked = 2"
| "state_num MmModemStateDisabled = 3"
| "state_num MmModemStateDisabling = 4"
| "state_num MmModemStateEnabling = 5"
| "state_num MmModemStateEnabled = 6"
| "state_num MmModemStateSearching = 7"
| "state_num MmModemStateRegistered = 8"
| "state_num MmModemStateDisconnecting = 9"
| "state_num MmModemStateConnecting = 10"
| "state_num MmModemStateConnected = 11"

fun state_String :: "MMModemState \<Rightarrow> string" where
  "state_String MmModemStateFailed = ''Failed''"
| "state_String MmModemStateUnknown = ''Unknown''"
| "state_String MmModemStateInitializing = ''Initializing''"
| "state_String MmModemStateLocked = ''Locked''"
| "state_String MmModemStateDisabled = ''Disabled''"
| "state_String MmModemStateDisabling = ''Disabling''"
| "state_String MmModemStateEnabling = ''Enabling''"
| "state_String MmModemStateEnabled = ''Enabled''"
| "state_String MmModemStateSearching = ''Searching''"
| "state_String MmModemStateRegistered = ''Registered''"
| "state_String MmModemStateDisconnecting = ''Disconnecting''"
| "state_String MmModemStateConnecting = ''Connecting''"
| "state_String MmModemStateConnected = ''Connected''"

text \<open>
  Modelled from the spec: the 3GPP registration states (spec section 3: Idle, Registered,
  Roaming, \<dots>), with the variants of ModemManager's \<open>MMModem3gppRegistrationState\<close>;
  the collector compares \<open>String()\<close> against \<open>"Roaming"\<close>.
\<close>

datatype MMModem3gppRegistrationState =
    MmModem3gppRegistrationStateIdle | MmModem3gppRegistrationStateHome
  | MmModem3gppRegistrationStateSearching | MmModem3gppRegistrationStateDenied
  | MmModem3gppRegistrationStateUnknown | MmModem3gppRegistrationStateRoaming
  | MmModem3gppRegistrationStateHomeSmsOnly | MmModem3gppRegistrationStateRoamingSmsOnly
  | MmModem3gppRegistrationStateEmergencyOnly
  | MmModem3gppRegistrationStateHomeCsfbNotPreferred
  | MmModem3gppRegistrationStateRoamingCsfbNotPreferred

fun regstate_String :: "MMModem3gppRegistrationState \<Rightarrow> string" where
  "regstate_String MmModem3gppRegistrationStateIdle = ''Idle''"
| "regstate_String MmModem3gppRegistrationStateHome = ''Home''"
| "regstate_String MmModem3gppRegistrationStateSearching = ''Searching''"
| "regstate_String MmModem3gppRegistrationStateDenied = ''Denied''"
| "regstate_String MmModem3gppRegistrationStateUnknown = ''Unknown''"
| "regstate_String MmModem3gppRegistrationStateRoaming = ''Roaming''"
| "regstate_String MmModem3gppRegistrationStateHomeSmsOnly = ''HomeSmsOnly''"
| "regstate_String MmModem3gppRegistrationStateRoamingSmsOnly = ''RoamingSmsOnly''"
| "regstate_String MmModem3gppRegistrationStateEmergencyOnly = ''EmergencyOnly''"
| "regstate_String MmModem3gppRegistrationStateHomeCsfbNotPreferred = ''HomeCsfbNotPreferred''"
| "regstate_String MmModem3gppRegistrationStateRoamingCsfbNotPreferred =
     ''RoamingCsfbNotPreferred''"

text \<open>
  The objects of the backend, each a record of what its methods answer in one pass.
  The other enumerations (access technology, power state, bearer type, signal type) are
  only printed, so a value of them is its \<open>String()\<close>.
\<close>

record Sim =
  GetSimIdentifier :: "string ret"
  GetImsi :: "string ret"
  Sim_GetOperatorIdentifier :: "string ret"
  Sim_GetOperatorName :: "string ret"

record Modem3gpp =
  GetImei :: "string ret"
  GetOperatorName :: "string ret"
  GetMcc :: "string ret"
  GetMnc :: "string ret"
  GetRegistrationState :: "MMModem3gppRegistrationState ret"
  GetOperatorCode :: "string ret"

record ThreeGppLacCi =
  Ci :: string
  Lac :: string
  Tac :: string

record ModemLocation =
  GetCurrentLocation :: "ThreeGppLacCi ret"

record SignalProperty =
  Type :: string
  Rssi :: float64
  Rsrp :: float64
  Rsrq :: float64
  Snr :: float64
  ErrorRate :: float64

record ModemSignal =
  Setup :: "nat \<Rightarrow> error option"
  GetCurrentSignals :: "SignalProperty list ret"
  GetGsm :: "SignalProperty ret"
  GetLte :: "SignalProperty ret"

record BearerStats =
  RxBytes :: nat
  TxBytes :: nat
  Duration :: nat

record Bearer =
  path :: string
  Disconnect :: "error option"
  GetBearerType :: "string ret"
  GetStats :: "BearerStats ret"
  GetIp4Config :: "string ret"
  GetIp6Config :: "string ret"

record ModemSimple =
  Connect :: "string \<Rightarrow> Bearer ret"

record Messaging =
  List :: "string list ret"

text \<open>
  \<open>GetState\<close> is asked twice in one pull pass, with \<open>Enable\<close> possibly in between:
  \<open>GetState m 0\<close> is the first answer and \<open>GetState m 1\<close> the second. \<open>DeleteBearer\<close>
  takes the bearer's object path. \<open>now\<close> is \<open>time.Now().UnixNano()\<close> when the modem is
  handled.
\<close>

record Modem =
  GetState :: "nat \<Rightarrow> MMModemState ret"
  Enable :: "error option"
  GetSim :: "Sim ret"
  Get3gpp :: "Modem3gpp ret"
  GetAccessTechnologies :: "string list ret"
  GetBearers :: "Bearer list ret"
  DeleteBearer :: "string \<Rightarrow> error option"
  GetSimpleModem :: "ModemSimple ret"
  GetStateFailedReason :: "error option"
  GetLocation :: "ModemLocation ret"
  GetSignal :: "ModemSignal ret"
  GetOwnNumbers :: "string list ret"
  GetPowerState :: "string ret"
  GetSignalQuality :: "(nat \<times> bool) ret"
  GetMessaging :: "Messaging ret"
  now :: int

section \<open>What a pass does: the trace\<close>

datatype logarg = S string | E "error option" | EN NumError | L "string list" | B string

datatype call =
    CallEnable | CallDisconnect string | CallDeleteBearer string
  | CallConnect string | CallSetup nat

record Tags =
  tag_imei :: string
  tag_icc :: string
  tag_imsi :: string
  tag_operatorid :: string
  tag_operator :: string
  tag_v_operator :: string
  tag_mcc :: string
  tag_mnc :: string
  tag_rat :: string
  tag_phone_number :: string

record Status =
  st_power_state :: string
  st_cellid :: string
  st_lac :: string
  st_tac :: string
  st_registered :: bool
  st_connected :: bool
  st_state :: string
  st_operatorcode :: int
  st_roaming :: bool
  st_regstate :: string
  st_signal_quality :: nat
  st_signal_quality_recent :: bool
  st_message_count :: nat

text \<open>
  A line of the push output is the measurement with the arguments of its
  \<open>fmt.Sprintf\<close>, in the order of the format string; the last one is the timestamp.
\<close>

datatype line =
    ErrorBody string
  | ModemStatus Tags Status int
  | ModemSignalGsm Tags string float64 float64 int
  | ModemSignalLte Tags string float64 float64 float64 float64 float64 int
  | ModemBearerStats Tags string nat nat nat int
  | ModemBearerIpConfig Tags string string int
  | ModemBearerIp6Config Tags string string int

text \<open>
  \<open>Log\<close> is \<open>log.Println\<close>, \<open>Stdout\<close> is \<open>fmt.Println\<close>, \<open>Metric\<close> is a sample sent
  to the registry's channel (descriptor name, value, label values), \<open>Call\<close> is a call of
  the backend that changes the modem, \<open>Sleep\<close> is \<open>time.Sleep\<close> in milliseconds,
  \<open>WriteHeader\<close> and \<open>Write\<close> are those of the HTTP response.
\<close>

datatype event =
    Log "logarg list"
  | Stdout "logarg list"
  | Metric string float64 "string list"
  | Call call
  | Sleep nat
  | WriteHeader nat
  | Write line

definition ToLower :: "string \<Rightarrow> string" where
  \<comment> \<open>\<open>strings.ToLower\<close> on the ASCII names of the access technologies\<close>
  "ToLower s = map (\<lambda>c. if 65 \<le> (of_char c :: nat) \<and> (of_char c :: nat) \<le> 90
                           then char_of (of_char c + 32 :: nat) else c) s"

section \<open>The pull emitter: Exporter.Collect\<close>

text \<open>
  The body of the loop over the modems is cut at the places where the source has a
  blank line between two steps; each part ends in the next one, and a \<open>continue\<close> ends
  the modem's events. \<open>lbl\<close> are the label values \<open>imei, simIdent, simImsi, simOpIdent,
  simOp, opName, rat\<close>. \<open>strconv.ParseFloat\<close> is a parameter \<open>pf\<close>.
\<close>

fun emit_signals :: "SignalProperty list \<Rightarrow> string list \<Rightarrow> event list" where
  "emit_signals [] lbl = []"
| "emit_signals (sp # sps) lbl =
     Metric ''modem_rssi'' (Rssi sp) lbl # Metric ''modem_rsrp'' (Rsrp sp) lbl #
     emit_signals sps lbl"

definition collect_signal :: "Modem \<Rightarrow> string list \<Rightarrow> event list" where
  \<comment> \<open>main.go, lines 334 to 368\<close>
  "collect_signal m lbl =
     (case GetSignal m of
        (modemSignal, Some err) \<Rightarrow> [Log [E (Some err)]]
      | (modemSignal, None) \<Rightarrow>
          Call (CallSetup 1) #
          (case Setup modemSignal 1 of
             Some err \<Rightarrow> [Log [E (Some err)]]
           | None \<Rightarrow>
               Sleep 2000 #
               (case GetCurrentSignals modemSignal of
                  (currentSignal, Some err) \<Rightarrow> [Log [E (Some err)]]
                | (currentSignal, None) \<Rightarrow>
                    emit_signals currentSignal lbl @
                    Call (CallSetup 0) #
                    (case Setup modemSignal 0 of
                       Some err \<Rightarrow> [Log [E (Some err)]]
                     | None \<Rightarrow> []))))"

definition collect_opcode ::
  "(string \<Rightarrow> float64 ret) \<Rightarrow> Modem \<Rightarrow> Modem3gpp \<Rightarrow> string list \<Rightarrow> event list" where
  \<comment> \<open>lines 322 to 332\<close>
  "collect_opcode pf m modem3gpp lbl =
     (case GetOperatorCode modem3gpp of
        (opCode, Some err) \<Rightarrow> [Log [E (Some err)]]
      | (opCode, None) \<Rightarrow>
          (case pf opCode of
             (s, None) \<Rightarrow> [Metric ''modem_operatorcode'' s lbl]
           | (s, Some err) \<Rightarrow> []) @
          collect_signal m lbl)"

definition collect_roaming ::
  "(string \<Rightarrow> float64 ret) \<Rightarrow> Modem \<Rightarrow> Modem3gpp \<Rightarrow> string list \<Rightarrow> event list" where
  \<comment> \<open>lines 306 to 320\<close>
  "collect_roaming pf m modem3gpp lbl =
     (case GetRegistrationState modem3gpp of
        (regState, Some err) \<Rightarrow> [Log [E (Some err)]]
      | (regState, None) \<Rightarrow>
          (if regstate_String regState = ''Roaming''
           then Metric ''modem_roaming'' 1 lbl
           else Metric ''modem_roaming'' 0 lbl) #
          collect_opcode pf m modem3gpp lbl)"

definition emit_hex :: "string \<Rightarrow> string \<Rightarrow> string list \<Rightarrow> event list" where
  \<comment> \<open>\<open>if dec, err := strconv.ParseInt(h, 16, 64); err == nil { ch <- \<dots> } else { log.Println(err) }\<close>\<close>
  "emit_hex name h lbl =
     (case ParseInt h 16 64 of
        (dec, None) \<Rightarrow> [Metric name (float64_of_int64 dec) lbl]
      | (dec, Some err) \<Rightarrow> [Log [EN err]])"

definition collect_location ::
  "(string \<Rightarrow> float64 ret) \<Rightarrow> Modem \<Rightarrow> Modem3gpp \<Rightarrow> string list \<Rightarrow> event list" where
  \<comment> \<open>lines 259 to 304\<close>
  "collect_location pf m modem3gpp lbl =
     (case GetStateFailedReason m of
        Some err \<Rightarrow> [Log [E (Some err)]]
      | None \<Rightarrow>
     (case GetLocation m of
        (modemLocation, Some err) \<Rightarrow> [Log [E (Some err)]]
      | (modemLocation, None) \<Rightarrow>
     (case GetCurrentLocation modemLocation of
        (mloc, Some err) \<Rightarrow> [Log [E (Some err)]]
      | (mloc, None) \<Rightarrow>
          emit_hex ''modem_cellid'' (Ci mloc) lbl @
          emit_hex ''modem_lac'' (Lac mloc) lbl @
          emit_hex ''modem_tac'' (Tac mloc) lbl @
          collect_roaming pf m modem3gpp lbl)))"

fun delete_bearers :: "Modem \<Rightarrow> Bearer list \<Rightarrow> event list" where
  \<comment> \<open>the loop of lines 213 to 220\<close>
  "delete_bearers m [] = []"
| "delete_bearers m (bearer # bearers) =
     Call (CallDisconnect (path bearer)) #
     Call (CallDeleteBearer (path bearer)) #
     (case DeleteBearer m (path bearer) of
        Some err \<Rightarrow> [Log [E (Some err)]]
      | None \<Rightarrow> []) @
     delete_bearers m bearers"

definition reconcile :: "string \<Rightarrow> Modem \<Rightarrow> event list" where
  \<comment> \<open>lines 206 to 235; \<open>apn\<close> is \<open>os.Getenv("MODEM_EXPORTER_APN")\<close>\<close>
  "reconcile apn m =
     (if apn \<noteq> [] then
        delete_bearers m (fst (GetBearers m)) @
        (case GetSimpleModem m of
           (modemSimple, Some err) \<Rightarrow> [Log [E (Some err)]]
         | (modemSimple, None) \<Rightarrow>
             Call (CallConnect apn) #
             (case Connect modemSimple apn of
                (newBearer, Some err) \<Rightarrow> [Log [E (Some err)]]
              | (newBearer, None) \<Rightarrow> [Stdout [S ''New Bearer: '', B (path newBearer)]]))
      else [])"

definition collect_state ::
  "string \<Rightarrow> (string \<Rightarrow> float64 ret) \<Rightarrow> Modem \<Rightarrow> Modem3gpp \<Rightarrow> string list \<Rightarrow> event list" where
  \<comment> \<open>lines 197 to 257\<close>
  "collect_state apn pf m modem3gpp lbl =
     (case GetState m 1 of
        (state, Some err) \<Rightarrow> [Log [S (''cannot get modem state:'' @ err)]]
      | (state, None) \<Rightarrow>
          (if state_String state = ''Registered'' then reconcile apn m else []) @
          (if state_String state = ''Registered'' \<or> state_String state = ''Connected''
           then Metric ''modem_registered'' 1 lbl
           else Metric ''modem_registered'' 0 lbl) #
          (if state_String state = ''Connected''
           then Metric ''modem_connected'' 1 lbl
           else Metric ''modem_connected'' 0 lbl) #
          collect_location pf m modem3gpp lbl)"

definition collect_identity ::
  "string \<Rightarrow> (string \<Rightarrow> float64 ret) \<Rightarrow> Modem \<Rightarrow> event list" where
  \<comment> \<open>lines 137 to 195\<close>
  "collect_identity apn pf m =
     (case GetSim m of
        (sim, Some err) \<Rightarrow> [Log [E (Some err)]]
      | (sim, None) \<Rightarrow>
     (case GetSimIdentifier sim of
        (simIdent, Some err) \<Rightarrow> [Log [E (Some err)]]
      | (simIdent, None) \<Rightarrow>
     (case GetImsi sim of
        (simImsi, Some err) \<Rightarrow> [Log [E (Some err)]]
      | (simImsi, None) \<Rightarrow>
     (case Sim_GetOperatorIdentifier sim of
        (simOpIdent, Some err) \<Rightarrow> [Log [E (Some err)]]
      | (simOpIdent, None) \<Rightarrow>
     (case Sim_GetOperatorName sim of
        (simOp, Some err) \<Rightarrow> [Log [E (Some err)]]
      | (simOp, None) \<Rightarrow>
     (case Get3gpp m of
        (modem3gpp, Some err) \<Rightarrow> [Log [E (Some err)]]
      | (modem3gpp, None) \<Rightarrow>
     (case GetImei modem3gpp of
        (imei, Some err) \<Rightarrow> [Log [E (Some err)]]
      | (imei, None) \<Rightarrow>
     (case GetOperatorName modem3gpp of
        (opName, Some err) \<Rightarrow> [Log [E (Some err)]]
      | (opName, None) \<Rightarrow>
     (case GetAccessTechnologies m of
        (ratList, Some err) \<Rightarrow> [Log [E (Some err)]]
      | (ratList, None) \<Rightarrow>
          if length ratList \<noteq> 1 then [Log [E None]]
          else
            let rat = ToLower (hd ratList)
            in collect_state apn pf m modem3gpp
                 [imei, simIdent, simImsi, simOpIdent, simOp, opName, rat])))))))))"

definition collect_modem ::
  "string \<Rightarrow> (string \<Rightarrow> float64 ret) \<Rightarrow> Modem \<Rightarrow> event list" where
  \<comment> \<open>the loop body, lines 122 to 368; the part before the identity reads is here\<close>
  "collect_modem apn pf m =
     (case GetState m 0 of
        (state, Some err) \<Rightarrow> [Log [S (''cannot get modem state:'' @ err)]]
      | (state, None) \<Rightarrow>
          if state_String state = ''Disabled''
          then Log [S ''modem disabled, trying to enable it''] # Call CallEnable #
               (case Enable m of
                  Some err \<Rightarrow> [Log [E (Some err)]]
                | None \<Rightarrow> collect_identity apn pf m)
          else collect_identity apn pf m)"

fun collect_loop :: "string \<Rightarrow> (string \<Rightarrow> float64 ret) \<Rightarrow> Modem list \<Rightarrow> event list" where
  "collect_loop apn pf [] = []"
| "collect_loop apn pf (modem # modems) = collect_modem apn pf modem @ collect_loop apn pf modems"

definition Collect ::
  "string \<Rightarrow> (string \<Rightarrow> float64 ret) \<Rightarrow> Modem list ret \<Rightarrow> event list" where
  \<comment> \<open>lines 108 to 372; the argument is what \<open>e.mmgr.GetModems()\<close> answers\<close>
  "Collect apn pf GetModems =
     (case GetModems of
        (modems, Some err) \<Rightarrow> [Log [E (Some err)]]
      | (modems, None) \<Rightarrow> Metric ''modem_up'' 1 [] # collect_loop apn pf modems)"

section \<open>The push emitter: influxHandler\<close>

definition soft :: "string \<Rightarrow> error option \<Rightarrow> event list" where
  \<comment> \<open>\<open>if err != nil { log.Println(msg, err) }\<close>, with nothing else in the branch\<close>
  "soft msg err = (case err of Some e \<Rightarrow> [Log [S msg, E (Some e)]] | None \<Rightarrow> [])"

definition read_rat :: "string list \<Rightarrow> event list \<times> string" where
  \<comment> \<open>main.go, lines 434 to 440\<close>
  "read_rat ratList =
     (if length ratList > 0
      then (if length ratList > 1
            then [Log [S ''multiple access technologies found, using first one. Dropped:'',
                       L (tl ratList)]]
            else [],
            ToLower (hd ratList))
      else ([], []))"

definition read_phone :: "Modem \<Rightarrow> event list \<times> string" where
  \<comment> \<open>lines 442 to 453\<close>
  "read_phone m =
     (case GetOwnNumbers m of
        (phoneNumberList, Some err) \<Rightarrow> ([Log [S ''error getting own numbers:'', E (Some err)]], [])
      | (phoneNumberList, None) \<Rightarrow>
          if length phoneNumberList > 0
          then (if length phoneNumberList > 1
                then [Log [S ''multiple own numbers found, using first one. Dropped:'',
                           L (tl phoneNumberList)]]
                else [],
                hd phoneNumberList)
          else ([], []))"

definition read_location :: "Modem \<Rightarrow> event list \<times> string \<times> string \<times> string" where
  \<comment> \<open>lines 471 to 486: \<open>cellID\<close>, \<open>lac\<close>, \<open>tac\<close>\<close>
  "read_location m =
     (case GetLocation m of
        (modemLocation, Some err) \<Rightarrow>
          ([Log [S ''error getting modem location:'', E (Some err)]], [], [], [])
      | (modemLocation, None) \<Rightarrow>
          (case GetCurrentLocation modemLocation of
             (mloc, Some err) \<Rightarrow>
               ([Log [S ''error getting current location:'', E (Some err)]], [], [], [])
           | (mloc, None) \<Rightarrow> ([], Ci mloc, Lac mloc, Tac mloc)))"

definition read_regstate :: "Modem3gpp \<Rightarrow> event list \<times> string \<times> bool" where
  \<comment> \<open>lines 488 to 498: \<open>regStateStr\<close>, \<open>isRoaming\<close>\<close>
  "read_regstate modem3gpp =
     (case GetRegistrationState modem3gpp of
        (regState, Some err) \<Rightarrow>
          ([Log [S ''error getting registration state:'', E (Some err)]], ''unknown'', False)
      | (regState, None) \<Rightarrow>
          ([], regstate_String regState, regState = MmModem3gppRegistrationStateRoaming))"

definition read_state :: "Modem \<Rightarrow> event list \<times> string \<times> bool \<times> bool" where
  \<comment> \<open>lines 500 to 512: \<open>stateStr\<close>, \<open>isRegistered\<close>, \<open>isConnected\<close>\<close>
  "read_state m =
     (case GetState m 0 of
        (state, Some err) \<Rightarrow>
          ([Log [S ''error getting modem state:'', E (Some err)]], ''unknown'', False, False)
      | (state, None) \<Rightarrow>
          ([], state_String state,
           state_num state \<ge> state_num MmModemStateRegistered,
           state = MmModemStateConnected))"

definition read_opcode :: "Modem3gpp \<Rightarrow> event list \<times> int" where
  \<comment> \<open>lines 514 to 530: \<open>opCodeInt\<close>\<close>
  "read_opcode modem3gpp =
     (case GetOperatorCode modem3gpp of
        (opCode, Some err) \<Rightarrow> ([Log [S ''error getting operator code:'', E (Some err)]], 0)
      | (opCode, None) \<Rightarrow>
          if opCode = [] then ([], 0)
          else
            (case ParseInt opCode 10 32 of
               (s, None) \<Rightarrow> ([], s)
             | (s, Some err) \<Rightarrow> ([Log [S ''error parsing operator code:'', EN err]], 0)))"

definition read_msgcount :: "Modem \<Rightarrow> event list \<times> nat" where
  \<comment> \<open>lines 532 to 544: \<open>msgCount\<close>\<close>
  "read_msgcount m =
     (case GetMessaging m of
        (messaging, Some err) \<Rightarrow> ([Log [S ''error getting messaging:'', E (Some err)]], 0)
      | (messaging, None) \<Rightarrow>
          (case List messaging of
             (messages, Some err) \<Rightarrow> ([Log [S ''error listing messages:'', E (Some err)]], 0)
           | (messages, None) \<Rightarrow> ([], length messages)))"

definition influx_signal :: "Modem \<Rightarrow> Tags \<Rightarrow> int \<Rightarrow> event list" where
  \<comment> \<open>lines 552 to 584\<close>
  "influx_signal m tags timestamp =
     (case GetSignal m of
        (modemSignal, Some err) \<Rightarrow> [Log [S ''error getting modem signal:'', E (Some err)]]
      | (modemSignal, None) \<Rightarrow>
          Call (CallSetup 1) #
          (case Setup modemSignal 1 of
             Some err \<Rightarrow> [Log [S ''error setting up modem signal:'', E (Some err)]]
           | None \<Rightarrow>
               Sleep 400 #
               (case GetGsm modemSignal of
                  (gsmSignal, Some err) \<Rightarrow> [Log [S ''error getting gsm signal:'', E (Some err)]]
                | (gsmSignal, None) \<Rightarrow>
                    [Write (ModemSignalGsm tags (Type gsmSignal) (Rssi gsmSignal)
                              (ErrorRate gsmSignal) timestamp)]) @
               (case GetLte modemSignal of
                  (lteSignal, Some err) \<Rightarrow> [Log [S ''error getting lte signal:'', E (Some err)]]
                | (lteSignal, None) \<Rightarrow>
                    [Write (ModemSignalLte tags (Type lteSignal) (Rssi lteSignal)
                              (Rsrp lteSignal) (Rsrq lteSignal) (Snr lteSignal)
                              (ErrorRate lteSignal) timestamp)]) @
               Call (CallSetup 0) #
               soft ''error resetting modem signal setup:'' (Setup modemSignal 0)))"

fun influx_bearers :: "Tags \<Rightarrow> int \<Rightarrow> Bearer list \<Rightarrow> event list" where
  \<comment> \<open>the loop of lines 587 to 614; \<open>bearerTags\<close> are the tags and the bearer type\<close>
  "influx_bearers tags timestamp [] = []"
| "influx_bearers tags timestamp (bearer # bearers) =
     (let bearerType = (case GetBearerType bearer of
                          (t, Some err) \<Rightarrow> ''Unknown''
                        | (t, None) \<Rightarrow> t)
      in soft ''error getting bearer type:'' (snd (GetBearerType bearer)) @
         (case GetStats bearer of
            (stats, Some err) \<Rightarrow> [Log [S ''error getting bearer stats:'', E (Some err)]]
          | (stats, None) \<Rightarrow>
              [Write (ModemBearerStats tags bearerType (RxBytes stats) (TxBytes stats)
                        (Duration stats) timestamp)]) @
         (case GetIp4Config bearer of
            (bearerIpConfig, Some err) \<Rightarrow>
              [Log [S ''error getting bearer ip config:'', E (Some err)]]
          | (bearerIpConfig, None) \<Rightarrow>
              [Write (ModemBearerIpConfig tags bearerType bearerIpConfig timestamp)]) @
         (case GetIp6Config bearer of
            (bearerIp6Config, Some err) \<Rightarrow>
              [Log [S ''error getting bearer ip6 config:'', E (Some err)]]
          | (bearerIp6Config, None) \<Rightarrow>
              [Write (ModemBearerIp6Config tags bearerType bearerIp6Config timestamp)])) @
     influx_bearers tags timestamp bearers"

definition influx_status :: "Modem \<Rightarrow> Modem3gpp \<Rightarrow> Tags \<Rightarrow> event list" where
  \<comment> \<open>lines 459 to 615: everything after the tags are formatted\<close>
  "influx_status m modem3gpp tags =
     (let timestamp = now m;
          (powerState, powerErr) = GetPowerState m;
          ((signalQuality, signalQualityRecent), qualityErr) = GetSignalQuality m;
          (locLog, cellID, lac, tac) = read_location m;
          (regLog, regStateStr, isRoaming) = read_regstate modem3gpp;
          (stateLog, stateStr, isRegistered, isConnected) = read_state m;
          (opLog, opCodeInt) = read_opcode modem3gpp;
          (msgLog, msgCount) = read_msgcount m
      in soft ''error getting power state:'' powerErr @
         soft ''error getting signal quality:'' qualityErr @
         locLog @ regLog @ stateLog @ opLog @ msgLog @
         Write (ModemStatus tags
           \<lparr>st_power_state = powerState, st_cellid = cellID, st_lac = lac, st_tac = tac,
            st_registered = isRegistered, st_connected = isConnected, st_state = stateStr,
            st_operatorcode = opCodeInt, st_roaming = isRoaming, st_regstate = regStateStr,
            st_signal_quality = signalQuality,
            st_signal_quality_recent = signalQualityRecent,
            st_message_count = msgCount\<rparr> timestamp) #
         influx_signal m tags timestamp @
         influx_bearers tags timestamp (fst (GetBearers m)))"

definition influx_modem :: "Modem \<Rightarrow> event list" where
  \<comment> \<open>the loop body, lines 384 to 615; the part up to the tags is here\<close>
  "influx_modem m =
     (case Get3gpp m of
        (modem3gpp, Some err) \<Rightarrow> [Log [S ''error getting 3gpp:'', E (Some err)]]
      | (modem3gpp, None) \<Rightarrow>
     (let imei = fst (GetImei modem3gpp) in
     (case GetSim m of
        (sim, Some err) \<Rightarrow> [Log [S ''error getting sim:'', E (Some err)]]
      | (sim, None) \<Rightarrow>
     (case GetSimIdentifier sim of
        (simIdent, Some err) \<Rightarrow> [Log [S ''error getting sim identifier:'', E (Some err)]]
      | (simIdent, None) \<Rightarrow>
     (case GetImsi sim of
        (simImsi, Some err) \<Rightarrow> [Log [S ''error getting sim imsi:'', E (Some err)]]
      | (simImsi, None) \<Rightarrow>
     (let (simOpIdent, simOpIdentErr) = Sim_GetOperatorIdentifier sim;
          (simOp, simOpErr) = Sim_GetOperatorName sim;
          (opName, opNameErr) = GetOperatorName modem3gpp;
          (mcc, mccErr) = GetMcc modem3gpp;
          (mnc, mncErr) = GetMnc modem3gpp
      in soft ''error getting sim operator identifier:'' simOpIdentErr @
         soft ''error getting sim operator name:'' simOpErr @
         soft ''error getting operator name:'' opNameErr @
         soft ''error getting mcc:'' mccErr @
         soft ''error getting mnc:'' mncErr @
         (case GetAccessTechnologies m of
            (ratList, Some err) \<Rightarrow>
              [Log [S ''error getting access technologies:'', E (Some err)]]
          | (ratList, None) \<Rightarrow>
              (let (ratLog, rat) = read_rat ratList;
                   (phoneLog, phoneNumber) = read_phone m;
                   tags = \<lparr>tag_imei = imei, tag_icc = simIdent, tag_imsi = simImsi,
                           tag_operatorid = simOpIdent, tag_operator = simOp,
                           tag_v_operator = opName, tag_mcc = mcc, tag_mnc = mnc,
                           tag_rat = rat, tag_phone_number = phoneNumber\<rparr>
               in ratLog @ phoneLog @ influx_status m modem3gpp tags))))))))"

fun influx_loop :: "Modem list \<Rightarrow> event list" where
  "influx_loop [] = []"
| "influx_loop (modem # modems) = influx_modem modem @ influx_loop modems"

definition influxHandler :: "Modem list ret \<Rightarrow> event list" where
  \<comment> \<open>lines 374 to 618; the argument is what \<open>mmgr.GetModems()\<close> answers\<close>
  "influxHandler GetModems =
     (case GetModems of
        (modems, Some err) \<Rightarrow>
          [Log [S ''error getting modems:'', E (Some err)], WriteHeader 500,
           Write (ErrorBody (''error getting modems: '' @ err))]
      | (modems, None) \<Rightarrow> influx_loop modems)"

section \<open>Vocabulary of the properties\<close>

text \<open>
  What follows is not code of the exporter: predicates on the trace and on the answers
  of the backend, in which the properties are stated.
\<close>

fun emitted :: "event \<Rightarrow> bool" where
  \<comment> \<open>a sample of the pull output or a line of the push output\<close>
  "emitted (Metric n v l) = True"
| "emitted (Write x) = True"
| "emitted (WriteHeader c) = False"
| "emitted (Log a) = False"
| "emitted (Stdout a) = False"
| "emitted (Call c) = False"
| "emitted (Sleep d) = False"

fun is_up :: "event \<Rightarrow> bool" where
  "is_up (Metric n v l) = (n = ''modem_up'')"
| "is_up (Write x) = False"
| "is_up (WriteHeader c) = False"
| "is_up (Log a) = False"
| "is_up (Stdout a) = False"
| "is_up (Call c) = False"
| "is_up (Sleep d) = False"

fun calls_of :: "event list \<Rightarrow> call list" where
  \<comment> \<open>the calls that change the modem, in the order they are made\<close>
  "calls_of [] = []"
| "calls_of (Call c # es) = c # calls_of es"
| "calls_of (Metric n v l # es) = calls_of es"
| "calls_of (Write x # es) = calls_of es"
| "calls_of (WriteHeader c # es) = calls_of es"
| "calls_of (Log a # es) = calls_of es"
| "calls_of (Stdout a # es) = calls_of es"
| "calls_of (Sleep d # es) = calls_of es"

fun named_in :: "string set \<Rightarrow> event \<Rightarrow> bool" where
  \<comment> \<open>if the event is a sample, its descriptor is one of \<open>N\<close>; it is no line of the push output\<close>
  "named_in N (Metric n v l) = (n \<in> N)"
| "named_in N (Write x) = False"
| "named_in N (WriteHeader c) = False"
| "named_in N (Log a) = True"
| "named_in N (Stdout a) = True"
| "named_in N (Call c) = True"
| "named_in N (Sleep d) = True"

definition signal_names :: "string set" where
  "signal_names = {''modem_rssi'', ''modem_rsrp''}"

definition location_names :: "string set" where
  "location_names = {''modem_cellid'', ''modem_lac'', ''modem_tac'',
     ''modem_roaming'', ''modem_operatorcode''} \<union> signal_names"

definition modem_names :: "string set" where
  "modem_names = {''modem_registered'', ''modem_connected''} \<union> location_names"

definition labels :: "Modem \<Rightarrow> string list" where
  "labels m =
     [fst (GetImei (fst (Get3gpp m))), fst (GetSimIdentifier (fst (GetSim m))),
      fst (GetImsi (fst (GetSim m))), fst (Sim_GetOperatorIdentifier (fst (GetSim m))),
      fst (Sim_GetOperatorName (fst (GetSim m))), fst (GetOperatorName (fst (Get3gpp m))),
      ToLower (hd (fst (GetAccessTechnologies m)))]"

definition identity_ok :: "Modem \<Rightarrow> bool" where
  "identity_ok m =
     (snd (GetSim m) = None \<and> snd (GetSimIdentifier (fst (GetSim m))) = None \<and>
      snd (GetImsi (fst (GetSim m))) = None \<and>
      snd (Sim_GetOperatorIdentifier (fst (GetSim m))) = None \<and>
      snd (Sim_GetOperatorName (fst (GetSim m))) = None \<and>
      snd (Get3gpp m) = None \<and> snd (GetImei (fst (Get3gpp m))) = None \<and>
      snd (GetOperatorName (fst (Get3gpp m))) = None \<and>
      snd (GetAccessTechnologies m) = None \<and> length (fst (GetAccessTechnologies m)) = 1)"

definition enable_ok :: "Modem \<Rightarrow> bool" where
  "enable_ok m =
     (snd (GetState m 0) = None \<and>
      (state_String (fst (GetState m 0)) = ''Disabled'' \<longrightarrow> Enable m = None))"

definition enable_events :: "Modem \<Rightarrow> event list" where
  "enable_events m =
     (if state_String (fst (GetState m 0)) = ''Disabled''
      then [Log [S ''modem disabled, trying to enable it''], Call CallEnable] else [])"

fun is_status :: "event \<Rightarrow> bool" where
  "is_status (Write (ModemStatus t s ts)) = True"
| "is_status e = False"

definition push_ok :: "Modem \<Rightarrow> bool" where
  "push_ok m =
     (snd (Get3gpp m) = None \<and> snd (GetSim m) = None \<and>
      snd (GetSimIdentifier (fst (GetSim m))) = None \<and>
      snd (GetImsi (fst (GetSim m))) = None \<and>
      snd (GetAccessTechnologies m) = None)"

definition push_tags :: "Modem \<Rightarrow> Tags" where
  "push_tags m =
     \<lparr>tag_imei = fst (GetImei (fst (Get3gpp m))),
      tag_icc = fst (GetSimIdentifier (fst (GetSim m))),
      tag_imsi = fst (GetImsi (fst (GetSim m))),
      tag_operatorid = fst (Sim_GetOperatorIdentifier (fst (GetSim m))),
      tag_operator = fst (Sim_GetOperatorName (fst (GetSim m))),
      tag_v_operator = fst (GetOperatorName (fst (Get3gpp m))),
      tag_mcc = fst (GetMcc (fst (Get3gpp m))),
      tag_mnc = fst (GetMnc (fst (Get3gpp m))),
      tag_rat = snd (read_rat (fst (GetAccessTechnologies m))),
      tag_phone_number = snd (read_phone m)\<rparr>"

definition status_of :: "Modem \<Rightarrow> Modem3gpp \<Rightarrow> Status" where
  "status_of m modem3gpp =
     \<lparr>st_power_state = fst (GetPowerState m),
      st_cellid = fst (snd (read_location m)),
      st_lac = fst (snd (snd (read_location m))),
      st_tac = snd (snd (snd (read_location m))),
      st_registered = fst (snd (snd (read_state m))),
      st_connected = snd (snd (snd (read_state m))),
      st_state = fst (snd (read_state m)),
      st_operatorcode = snd (read_opcode modem3gpp),
      st_roaming = snd (snd (read_regstate modem3gpp)),
      st_regstate = fst (snd (read_regstate modem3gpp)),
      st_signal_quality = fst (fst (GetSignalQuality m)),
      st_signal_quality_recent = snd (fst (GetSignalQuality m)),
      st_message_count = snd (read_msgcount m)\<rparr>"

fun is_log :: "event \<Rightarrow> bool" where
  "is_log (Log a) = True"
| "is_log e = False"

definition status_logs :: "Modem \<Rightarrow> Modem3gpp \<Rightarrow> event list" where
  "status_logs m modem3gpp =
     soft ''error getting power state:'' (snd (GetPowerState m)) @
     soft ''error getting signal quality:'' (snd (GetSignalQuality m)) @
     fst (read_location m) @ fst (read_regstate modem3gpp) @ fst (read_state m) @
     fst (read_opcode modem3gpp) @ fst (read_msgcount m)"

definition identity_logs :: "Modem \<Rightarrow> event list" where
  "identity_logs m =
     soft ''error getting sim operator identifier:''
       (snd (Sim_GetOperatorIdentifier (fst (GetSim m)))) @
     soft ''error getting sim operator name:'' (snd (Sim_GetOperatorName (fst (GetSim m)))) @
     soft ''error getting operator name:'' (snd (GetOperatorName (fst (Get3gpp m)))) @
     soft ''error getting mcc:'' (snd (GetMcc (fst (Get3gpp m)))) @
     soft ''error getting mnc:'' (snd (GetMnc (fst (Get3gpp m)))) @
     fst (read_rat (fst (GetAccessTechnologies m))) @ fst (read_phone m)"

fun is_header :: "event \<Rightarrow> bool" where
  "is_header (WriteHeader c) = True"
| "is_header e = False"

fun named :: "string \<Rightarrow> event \<Rightarrow> bool" where
  \<comment> \<open>a sample of the descriptor \<open>n\<close>\<close>
  "named n (Metric n' v l) = (n' = n)"
| "named n e = False"

fun is_bearer_op :: "call \<Rightarrow> bool" where
  "is_bearer_op (CallDisconnect p) = True"
| "is_bearer_op (CallDeleteBearer p) = True"
| "is_bearer_op (CallConnect apn) = True"
| "is_bearer_op CallEnable = False"
| "is_bearer_op (CallSetup rate) = False"

definition clear_calls :: "Bearer list \<Rightarrow> call list" where
  \<comment> \<open>for each bearer in turn: disconnect it, then delete it\<close>
  "clear_calls bs = concat (map (\<lambda>b. [CallDisconnect (path b), CallDeleteBearer (path b)]) bs)"

definition bearer_ops :: "event list \<Rightarrow> call list" where
  \<comment> \<open>the calls on bearers: disconnect, delete, connect\<close>
  "bearer_ops es = filter is_bearer_op (calls_of es)"

definition state_names :: "string set" where
  "state_names = {''modem_registered'', ''modem_connected''}"

definition cell_names :: "string set" where
  "cell_names = state_names \<union> {''modem_cellid'', ''modem_lac'', ''modem_tac''}"

definition roaming_names :: "string set" where
  "roaming_names = cell_names \<union> {''modem_roaming''}"

subsection \<open>Hexadecimal strings, as the specification reads them\<close>

text \<open>
  These definitions follow the words of the specification, not the code: a valid
  hexadecimal string is a non-empty string of the digits \<open>0-9\<close>, \<open>a-f\<close>, \<open>A-F\<close>, and
  its value is the number it denotes in base 16. \<open>signed_hex\<close> adds what the code accepts
  besides: one sign in front, and the bound of 64 bits. \<open>cutoff16\<close> and \<open>finish\<close> name two
  parts of \<open>ParseUint\<close> and \<open>ParseInt\<close> at base 16 and 64 bits, for the proofs.
\<close>

definition hex_alphabet :: string where
  "hex_alphabet = ''0123456789abcdefABCDEF''"

definition is_hex_digit :: "char \<Rightarrow> bool" where
  "is_hex_digit c = (c \<in> set hex_alphabet)"

definition position :: "char \<Rightarrow> string \<Rightarrow> nat" where
  "position c cs = length (takeWhile (\<lambda>d. d \<noteq> c) cs)"

definition hex_digit_value :: "char \<Rightarrow> nat" where
  "hex_digit_value c =
     (if c \<in> set ''0123456789abcdef'' then position c ''0123456789abcdef''
      else position c ''0123456789ABCDEF'')"

definition hex_acc :: "nat \<Rightarrow> string \<Rightarrow> nat" where
  "hex_acc n s = foldl (\<lambda>a c. 16 * a + hex_digit_value c) n s"

definition hex_value :: "string \<Rightarrow> nat" where
  "hex_value s = hex_acc 0 s"

definition valid_hex :: "string \<Rightarrow> bool" where
  "valid_hex s = (s \<noteq> [] \<and> list_all is_hex_digit s)"

definition signed_hex :: "string \<Rightarrow> int option" where
  \<comment> \<open>an optional sign and hexadecimal digits, read as a number that fits 64 bits\<close>
  "signed_hex s =
     (if s \<noteq> [] \<and> hd s = CHR ''-''
      then (if valid_hex (tl s) \<and> hex_value (tl s) \<le> 2 ^ 63
            then Some (- int (hex_value (tl s))) else None)
      else if s \<noteq> [] \<and> hd s = CHR ''+''
      then (if valid_hex (tl s) \<and> hex_value (tl s) < 2 ^ 63
            then Some (int (hex_value (tl s))) else None)
      else if valid_hex s \<and> hex_value s < 2 ^ 63 then Some (int (hex_value s)) else None)"

definition cutoff16 :: nat where
  "cutoff16 = maxUint64 div 16 + 1"

definition finish :: "bool \<Rightarrow> nat \<times> NumError option \<Rightarrow> int \<times> NumError option" where
  "finish neg r =
     (if snd r \<noteq> None \<and> snd r \<noteq> Some ErrRange then (0, snd r)
      else if \<not> neg \<and> fst r \<ge> 2 ^ 63 then (2 ^ 63 - 1, Some ErrRange)
      else if neg \<and> fst r > 2 ^ 63 then (- (2 ^ 63), Some ErrRange)
      else (if neg then int64 (- int64 (int (fst r))) else int64 (int (fst r)), None))"

section \<open>Example backends\<close>

text \<open>
  One modem that answers every call, with two bearers and two signal samples; the
  examples of the properties change single answers of it.
\<close>

definition sim_ok :: Sim where
  "sim_ok =
     \<lparr>GetSimIdentifier = (''8949'', None), GetImsi = (''26201'', None),
      Sim_GetOperatorIdentifier = (''26201'', None),
      Sim_GetOperatorName = (''Telekom'', None)\<rparr>"

definition modem3gpp_ok :: Modem3gpp where
  "modem3gpp_ok =
     \<lparr>GetImei = (''3520'', None), GetOperatorName = (''Telekom.de'', None),
      GetMcc = (''262'', None), GetMnc = (''01'', None),
      GetRegistrationState = (MmModem3gppRegistrationStateHome, None),
      GetOperatorCode = (''26201'', None)\<rparr>"

definition location_ok :: ModemLocation where
  "location_ok = \<lparr>GetCurrentLocation = (\<lparr>Ci = ''1A2B'', Lac = ''00ff'', Tac = ''10''\<rparr>, None)\<rparr>"

definition sample_gsm :: SignalProperty where
  "sample_gsm = \<lparr>Type = ''Gsm'', Rssi = - 71, Rsrp = 0, Rsrq = 0, Snr = 0, ErrorRate = 0\<rparr>"

definition sample_lte :: SignalProperty where
  "sample_lte = \<lparr>Type = ''Lte'', Rssi = - 65, Rsrp = - 95, Rsrq = - 11, Snr = 7, ErrorRate = 0\<rparr>"

definition signal_ok :: ModemSignal where
  "signal_ok =
     \<lparr>Setup = (\<lambda>rate. None), GetCurrentSignals = ([sample_gsm, sample_lte], None),
      GetGsm = (sample_gsm, None), GetLte = (sample_lte, None)\<rparr>"

definition bearer_a :: Bearer where
  "bearer_a =
     \<lparr>path = ''/Bearer/0'', Disconnect = None, GetBearerType = (''Default'', None),
      GetStats = (\<lparr>RxBytes = 100, TxBytes = 20, Duration = 5\<rparr>, None),
      GetIp4Config = (''10.0.0.2'', None), GetIp6Config = ([], Some ''no ip6'')\<rparr>"

definition bearer_b :: Bearer where
  "bearer_b = bearer_a\<lparr>path := ''/Bearer/1''\<rparr>"

definition bearer_new :: Bearer where
  "bearer_new = bearer_a\<lparr>path := ''/Bearer/2''\<rparr>"

definition simple_ok :: ModemSimple where
  "simple_ok = \<lparr>Connect = (\<lambda>apn. (bearer_new, None))\<rparr>"

definition messaging_ok :: Messaging where
  "messaging_ok = \<lparr>List = ([''/SMS/0''], None)\<rparr>"

definition modem_ok :: Modem where
  "modem_ok =
     \<lparr>GetState = (\<lambda>n. (MmModemStateConnected, None)), Enable = None,
      GetSim = (sim_ok, None), Get3gpp = (modem3gpp_ok, None),
      GetAccessTechnologies = ([''Lte''], None),
      GetBearers = ([bearer_a, bearer_b], None), DeleteBearer = (\<lambda>p. None),
      GetSimpleModem = (simple_ok, None), GetStateFailedReason = None,
      GetLocation = (location_ok, None), GetSignal = (signal_ok, None),
      GetOwnNumbers = ([''+491'', ''+492''], None), GetPowerState = (''On'', None),
      GetSignalQuality = ((80, True), None), GetMessaging = (messaging_ok, None),
      now = 1700000000\<rparr>"

definition labels_ok :: "string list" where
  "labels_ok = [''3520'', ''8949'', ''26201'', ''26201'', ''Telekom'', ''Telekom.de'', ''lte'']"

definition parse_digits :: "string \<Rightarrow> float64 ret" where
  \<comment> \<open>stands for \<open>strconv.ParseFloat(s, 64)\<close> in the examples, whose operator codes are
      a few decimal digits, letters that make no number, or empty\<close>
  "parse_digits s =
     (case ParseInt s 10 64 of
        (n, None) \<Rightarrow> (real_of_int n, None)
      | (n, Some err) \<Rightarrow> (0, Some ''invalid syntax''))"

definition modem_no_imei :: Modem where
  "modem_no_imei = modem_ok\<lparr>Get3gpp := (modem3gpp_ok\<lparr>GetImei := ([], Some ''no imei'')\<rparr>, None)\<rparr>"

definition modem_no_icc :: Modem where
  "modem_no_icc = modem_ok\<lparr>GetSim := (sim_ok\<lparr>GetSimIdentifier := ([], Some ''no icc'')\<rparr>, None)\<rparr>"

definition modem_two_rats :: Modem where
  "modem_two_rats = modem_ok\<lparr>GetAccessTechnologies := ([''Lte'', ''Umts''], None)\<rparr>"

definition modem_no_rat :: Modem where
  "modem_no_rat = modem_ok\<lparr>GetAccessTechnologies := ([], None)\<rparr>"

definition modem_roaming_connecting :: Modem where
  "modem_roaming_connecting =
     modem_ok\<lparr>GetState := (\<lambda>n. (MmModemStateConnecting, None)),
              Get3gpp := (modem3gpp_ok\<lparr>GetRegistrationState :=
                            (MmModem3gppRegistrationStateRoaming, None)\<rparr>, None)\<rparr>"

definition modem_roaming_searching :: Modem where
  "modem_roaming_searching =
     modem_ok\<lparr>GetState := (\<lambda>n. (MmModemStateSearching, None)),
              Get3gpp := (modem3gpp_ok\<lparr>GetRegistrationState :=
                            (MmModem3gppRegistrationStateRoaming, None)\<rparr>, None)\<rparr>"

definition modem_roaming_registered :: Modem where
  "modem_roaming_registered =
     modem_ok\<lparr>GetState := (\<lambda>n. (MmModemStateRegistered, None)),
              Get3gpp := (modem3gpp_ok\<lparr>GetRegistrationState :=
                            (MmModem3gppRegistrationStateRoaming, None)\<rparr>, None)\<rparr>"

definition signal_unreadable :: ModemSignal where
  "signal_unreadable =
     \<lparr>Setup = (\<lambda>rate. None), GetCurrentSignals = ([], Some ''read failed''),
      GetGsm = (sample_gsm, Some ''read failed''), GetLte = (sample_lte, Some ''read failed'')\<rparr>"

definition modem_signal_unreadable :: Modem where
  "modem_signal_unreadable = modem_ok\<lparr>GetSignal := (signal_unreadable, None)\<rparr>"

definition signal_stuck :: ModemSignal where
  "signal_stuck = signal_ok\<lparr>Setup := (\<lambda>rate. if rate = 0 then Some ''busy'' else None)\<rparr>"

definition modem_signal_stuck :: Modem where
  "modem_signal_stuck = modem_ok\<lparr>GetSignal := (signal_stuck, None)\<rparr>"

definition modem_registered_apn :: Modem where
  "modem_registered_apn =
     modem_ok\<lparr>GetState := (\<lambda>n. (MmModemStateRegistered, None)),
              DeleteBearer := (\<lambda>p. if p = ''/Bearer/0'' then Some ''in use'' else None),
              GetSimpleModem := (\<lparr>Connect = (\<lambda>apn. (bearer_new, Some ''denied''))\<rparr>, None)\<rparr>"

definition modem_registered_no_simple :: Modem where
  "modem_registered_no_simple =
     modem_ok\<lparr>GetState := (\<lambda>n. (MmModemStateRegistered, None)),
              GetBearers := ([], None),
              GetSimpleModem := (simple_ok, Some ''no interface'')\<rparr>"

definition modem_unreadable :: Modem where
  \<comment> \<open>the state, the registration state, the operator code and the location cannot be read\<close>
  "modem_unreadable =
     modem_ok\<lparr>GetState := (\<lambda>n. (MmModemStateUnknown, Some ''timeout'')),
              Get3gpp := (modem3gpp_ok\<lparr>
                 GetRegistrationState := (MmModem3gppRegistrationStateIdle, Some ''timeout''),
                 GetOperatorCode := ([], Some ''timeout'')\<rparr>, None),
              GetLocation := (location_ok, Some ''timeout'')\<rparr>"

definition modem_opcode_letters :: Modem where
  "modem_opcode_letters =
     modem_ok\<lparr>Get3gpp := (modem3gpp_ok\<lparr>GetOperatorCode := (''abc'', None)\<rparr>, None)\<rparr>"

definition modem_reread_fails :: Modem where
  \<comment> \<open>the first read of the state answers, the second does not\<close>
  "modem_reread_fails =
     modem_ok\<lparr>GetState := (\<lambda>n. if n = 0 then (MmModemStateConnected, None)
                               else (MmModemStateUnknown, Some ''timeout''))\<rparr>"

definition modem_no_location :: Modem where
  "modem_no_location = modem_ok\<lparr>GetLocation := (location_ok, Some ''timeout'')\<rparr>"

definition modem_no_regstate :: Modem where
  "modem_no_regstate =
     modem_ok\<lparr>Get3gpp := (modem3gpp_ok\<lparr>GetRegistrationState :=
                   (MmModem3gppRegistrationStateIdle, Some ''timeout'')\<rparr>, None)\<rparr>"

definition modem_no_opcode :: Modem where
  "modem_no_opcode =
     modem_ok\<lparr>Get3gpp := (modem3gpp_ok\<lparr>GetOperatorCode := ([], Some ''timeout'')\<rparr>, None)\<rparr>"

definition modem_opcode_empty :: Modem where
  "modem_opcode_empty =
     modem_ok\<lparr>Get3gpp := (modem3gpp_ok\<lparr>GetOperatorCode := ([], None)\<rparr>, None)\<rparr>"

section \<open>Name sets of the pull emitter's parts\<close>

lemma named_in_mono: "named_in N e \<Longrightarrow> N \<subseteq> N' \<Longrightarrow> named_in N' e"
  by (cases e) auto

lemma list_all_named_in_mono:
  "list_all (named_in N) es \<Longrightarrow> N \<subseteq> N' \<Longrightarrow> list_all (named_in N') es"
  by (induction es) (auto elim: named_in_mono)

lemma emit_signals_named:
  "list_all (named_in signal_names) (emit_signals sps lbl)"
  by (induction sps) (simp_all add: signal_names_def)

lemma collect_signal_named:
  "list_all (named_in signal_names) (collect_signal m lbl)"
  by (simp add: collect_signal_def emit_signals_named split: prod.split option.split)

lemma collect_signal_named':
  "list_all (named_in location_names) (collect_signal m lbl)"
  by (rule list_all_named_in_mono[OF collect_signal_named]) (auto simp: location_names_def)

lemma collect_opcode_named:
  "list_all (named_in location_names) (collect_opcode pf m m3 lbl)"
  by (simp add: collect_opcode_def collect_signal_named' split: prod.split option.split)
     (simp add: location_names_def)

lemma collect_roaming_named:
  "list_all (named_in location_names) (collect_roaming pf m m3 lbl)"
  by (simp add: collect_roaming_def collect_opcode_named split: prod.split option.split)
     (simp add: location_names_def)

lemma emit_hex_named:
  "name \<in> N \<Longrightarrow> list_all (named_in N) (emit_hex name h lbl)"
  by (simp add: emit_hex_def split: prod.split option.split)

lemma collect_location_named:
  "list_all (named_in location_names) (collect_location pf m m3 lbl)"
proof -
  have "''modem_cellid'' \<in> location_names" "''modem_lac'' \<in> location_names"
    "''modem_tac'' \<in> location_names"
    by (simp_all add: location_names_def)
  then show ?thesis
    by (simp add: collect_location_def emit_hex_named collect_roaming_named
          split: prod.split option.split)
qed

lemma delete_bearers_named:
  "list_all (named_in N) (delete_bearers m bs)"
  by (induction bs) (simp_all split: option.split)

lemma reconcile_named:
  "list_all (named_in N) (reconcile apn m)"
  by (simp add: reconcile_def delete_bearers_named split: prod.split option.split)

lemma collect_state_named:
  "list_all (named_in modem_names) (collect_state apn pf m m3 lbl)"
proof -
  have "list_all (named_in modem_names) (collect_location pf m m3 lbl)"
    by (rule list_all_named_in_mono[OF collect_location_named]) (auto simp: modem_names_def)
  moreover have "''modem_registered'' \<in> modem_names" "''modem_connected'' \<in> modem_names"
    by (simp_all add: modem_names_def)
  ultimately show ?thesis
    by (simp add: collect_state_def reconcile_named split: prod.split option.split)
qed

lemma collect_identity_named:
  "list_all (named_in modem_names) (collect_identity apn pf m)"
  by (simp add: collect_identity_def collect_state_named Let_def split: prod.split option.split)

lemma collect_modem_named:
  "list_all (named_in modem_names) (collect_modem apn pf m)"
  by (simp add: collect_modem_def collect_identity_named split: prod.split option.split)

lemma collect_loop_named:
  "list_all (named_in modem_names) (collect_loop apn pf ms)"
  by (induction ms) (simp_all add: collect_modem_named)

lemma named_in_notin:
  "list_all (named_in N) es \<Longrightarrow> n \<notin> N \<Longrightarrow> Metric n v l \<notin> set es"
  by (auto simp: list_all_iff)

section \<open>The ways through the loop body of Collect\<close>

lemma collect_identity_ok:
  "identity_ok m \<Longrightarrow>
   collect_identity apn pf m = collect_state apn pf m (fst (Get3gpp m)) (labels m)"
  by (simp add: collect_identity_def identity_ok_def labels_def case_prod_beta option.case_eq_if)

lemma collect_identity_fail:
  "\<not> identity_ok m \<Longrightarrow> \<exists>a. collect_identity apn pf m = [Log a]"
  by (auto simp add: collect_identity_def identity_ok_def case_prod_beta option.case_eq_if)

lemma collect_modem_ok:
  "enable_ok m \<Longrightarrow> collect_modem apn pf m = enable_events m @ collect_identity apn pf m"
  by (simp add: collect_modem_def enable_ok_def enable_events_def case_prod_beta option.case_eq_if)

lemma collect_modem_fail:
  "\<not> enable_ok m \<Longrightarrow> list_all (named_in {}) (collect_modem apn pf m)"
  by (auto simp add: collect_modem_def enable_ok_def case_prod_beta option.case_eq_if)

lemma collect_modem_cases:
  "list_all (named_in {}) (collect_modem apn pf m) \<or>
   enable_ok m \<and> identity_ok m \<and>
   collect_modem apn pf m =
     enable_events m @ collect_state apn pf m (fst (Get3gpp m)) (labels m)"
proof (cases "enable_ok m")
  case False
  then show ?thesis by (simp add: collect_modem_fail)
next
  case True
  show ?thesis
  proof (cases "identity_ok m")
    case True
    with \<open>enable_ok m\<close> show ?thesis by (simp add: collect_modem_ok collect_identity_ok)
  next
    case False
    then obtain a where "collect_identity apn pf m = [Log a]"
      using collect_identity_fail by blast
    with \<open>enable_ok m\<close> show ?thesis
      by (simp add: collect_modem_ok enable_events_def)
  qed
qed

lemma collect_state_connected:
  assumes "Metric ''modem_connected'' 1 l \<in> set (collect_state apn pf m m3 lbl)"
  shows "Metric ''modem_registered'' 1 l \<in> set (collect_state apn pf m m3 lbl)"
proof -
  have a: "Metric ''modem_connected'' 1 l \<notin> set (collect_location pf m m3 lbl)"
    by (rule named_in_notin[OF collect_location_named]) (simp add: location_names_def signal_names_def)
  have b: "Metric ''modem_connected'' 1 l \<notin> set (reconcile apn m)"
    by (rule named_in_notin[OF reconcile_named[of "{}"]]) simp
  from assms a b show ?thesis
    by (simp add: collect_state_def case_prod_beta option.case_eq_if split: if_splits)
qed

lemma collect_modem_connected:
  assumes "Metric ''modem_connected'' 1 l \<in> set (collect_modem apn pf m)"
  shows "Metric ''modem_registered'' 1 l \<in> set (collect_modem apn pf m)"
proof -
  from collect_modem_cases[of apn pf m] show ?thesis
  proof
    assume "list_all (named_in {}) (collect_modem apn pf m)"
    from named_in_notin[OF this] assms show ?thesis by simp
  next
    assume h: "enable_ok m \<and> identity_ok m \<and> collect_modem apn pf m =
      enable_events m @ collect_state apn pf m (fst (Get3gpp m)) (labels m)"
    with assms have "Metric ''modem_connected'' 1 l \<in> set (collect_state apn pf m (fst (Get3gpp m)) (labels m))"
      by (simp add: enable_events_def split: if_splits)
    from collect_state_connected[OF this] h show ?thesis by simp
  qed
qed

section \<open>The parts of the push emitter\<close>

lemma soft_log: "list_all is_log (soft msg err)"
  by (simp add: soft_def split: option.split)

lemma read_rat_log: "list_all is_log (fst (read_rat ratList))"
  by (simp add: read_rat_def)

lemma read_phone_log: "list_all is_log (fst (read_phone m))"
  by (simp add: read_phone_def case_prod_beta option.case_eq_if)

lemma read_location_log: "list_all is_log (fst (read_location m))"
  by (simp add: read_location_def case_prod_beta option.case_eq_if)

lemma read_regstate_log: "list_all is_log (fst (read_regstate m3))"
  by (simp add: read_regstate_def case_prod_beta option.case_eq_if)

lemma read_state_log: "list_all is_log (fst (read_state m))"
  by (simp add: read_state_def case_prod_beta option.case_eq_if)

lemma read_opcode_log: "list_all is_log (fst (read_opcode m3))"
  by (simp add: read_opcode_def case_prod_beta option.case_eq_if)

lemma read_msgcount_log: "list_all is_log (fst (read_msgcount m))"
  by (simp add: read_msgcount_def case_prod_beta option.case_eq_if)

lemmas reads_log = soft_log read_rat_log read_phone_log read_location_log
  read_regstate_log read_state_log read_opcode_log read_msgcount_log

lemma log_not_status: "list_all is_log es \<Longrightarrow> filter is_status es = []"
proof (induction es)
  case Nil
  then show ?case by simp
next
  case (Cons e es)
  then show ?case by (cases e) simp_all
qed

lemma log_not_emitted: "list_all is_log es \<Longrightarrow> filter emitted es = []"
proof (induction es)
  case Nil
  then show ?case by simp
next
  case (Cons e es)
  then show ?case by (cases e) simp_all
qed

lemma calls_of_append: "calls_of (xs @ ys) = calls_of xs @ calls_of ys"
  by (induction xs rule: calls_of.induct) simp_all

lemma log_no_calls: "list_all is_log es \<Longrightarrow> calls_of es = []"
proof (induction es)
  case Nil
  then show ?case by simp
next
  case (Cons e es)
  then show ?case by (cases e) simp_all
qed

lemma status_logs_log: "list_all is_log (status_logs m m3)"
  by (simp add: status_logs_def reads_log)

lemma influx_status_eq:
  "influx_status m m3 tags =
     status_logs m m3 @
     Write (ModemStatus tags (status_of m m3) (now m)) #
     influx_signal m tags (now m) @ influx_bearers tags (now m) (fst (GetBearers m))"
  by (simp add: influx_status_def status_logs_def status_of_def Let_def case_prod_beta)

lemma identity_logs_log: "list_all is_log (identity_logs m)"
  by (simp add: identity_logs_def reads_log)

lemma influx_modem_ok:
  "push_ok m \<Longrightarrow>
   influx_modem m = identity_logs m @ influx_status m (fst (Get3gpp m)) (push_tags m)"
  by (simp add: influx_modem_def push_ok_def identity_logs_def push_tags_def Let_def
        case_prod_beta)

lemma influx_modem_fail:
  "\<not> push_ok m \<Longrightarrow> list_all is_log (influx_modem m)"
  by (auto simp add: influx_modem_def push_ok_def Let_def case_prod_beta option.case_eq_if
        reads_log)

section \<open>Status lines and calls of the push emitter\<close>

lemma named_in_not_up:
  "list_all (named_in N) es \<Longrightarrow> ''modem_up'' \<notin> N \<Longrightarrow> filter is_up es = []"
proof (induction es)
  case Nil
  then show ?case by simp
next
  case (Cons e es)
  then show ?case by (cases e) auto
qed

lemma named_in_empty_not_emitted:
  "list_all (named_in {}) es \<Longrightarrow> filter emitted es = []"
proof (induction es)
  case Nil
  then show ?case by simp
next
  case (Cons e es)
  then show ?case by (cases e) auto
qed

lemma influx_signal_no_status: "filter is_status (influx_signal m tags ts) = []"
  by (simp add: influx_signal_def case_prod_beta option.case_eq_if log_not_status[OF soft_log])

lemma influx_bearers_no_status: "filter is_status (influx_bearers tags ts bs) = []"
  by (induction bs)
     (simp_all add: Let_def case_prod_beta option.case_eq_if log_not_status[OF soft_log])

lemma influx_status_filter:
  "filter is_status (influx_status m m3 tags) = [Write (ModemStatus tags (status_of m m3) (now m))]"
  by (simp add: influx_status_eq log_not_status[OF status_logs_log] influx_signal_no_status
       influx_bearers_no_status)

lemma influx_modem_filter:
  "filter is_status (influx_modem m) =
     (if push_ok m
      then [Write (ModemStatus (push_tags m) (status_of m (fst (Get3gpp m))) (now m))]
      else [])"
  by (simp add: influx_modem_ok influx_status_filter log_not_status[OF identity_logs_log]
       log_not_status[OF influx_modem_fail])

lemma status_in_influx_modem:
  assumes "Write (ModemStatus tags st ts) \<in> set (influx_modem m)"
  shows "push_ok m \<and> tags = push_tags m \<and> st = status_of m (fst (Get3gpp m)) \<and> ts = now m"
proof -
  from assms have "Write (ModemStatus tags st ts) \<in> set (filter is_status (influx_modem m))"
    by simp
  then show ?thesis
    by (simp add: influx_modem_filter split: if_splits)
qed

lemma status_of_connected:
  "st_connected (status_of m m3) \<Longrightarrow> st_registered (status_of m m3)"
  by (auto simp add: status_of_def read_state_def case_prod_beta option.case_eq_if split: if_splits)

lemma influx_signal_calls:
  "set (calls_of (influx_signal m tags ts)) \<subseteq> {CallSetup 1, CallSetup 0}"
  by (simp add: influx_signal_def case_prod_beta option.case_eq_if calls_of_append
        log_no_calls[OF soft_log])

lemma influx_bearers_calls: "calls_of (influx_bearers tags ts bs) = []"
  by (induction bs)
     (simp_all add: Let_def case_prod_beta option.case_eq_if calls_of_append
        log_no_calls[OF soft_log])

lemma influx_modem_calls:
  "set (calls_of (influx_modem m)) \<subseteq> {CallSetup 1, CallSetup 0}"
proof (cases "push_ok m")
  case True
  then show ?thesis
    using influx_signal_calls[of m "push_tags m" "now m"]
    by (simp add: influx_modem_ok influx_status_eq calls_of_append
          log_no_calls[OF identity_logs_log] log_no_calls[OF status_logs_log]
          influx_bearers_calls)
next
  case False
  then show ?thesis
    by (simp add: log_no_calls[OF influx_modem_fail])
qed

lemma influx_loop_calls:
  "set (calls_of (influx_loop ms)) \<subseteq> {CallSetup 1, CallSetup 0}"
  using influx_modem_calls by (induction ms) (simp_all add: calls_of_append)

section \<open>Modems that are skipped\<close>

lemma collect_loop_append:
  "collect_loop apn pf (xs @ ys) = collect_loop apn pf xs @ collect_loop apn pf ys"
  by (induction xs) simp_all

lemma influx_loop_append: "influx_loop (xs @ ys) = influx_loop xs @ influx_loop ys"
  by (induction xs) simp_all

lemma collect_modem_silent:
  "\<not> identity_ok m \<Longrightarrow> filter emitted (collect_modem apn pf m) = []"
  using collect_modem_cases[of apn pf m] by (auto dest: named_in_empty_not_emitted)

lemma influx_modem_silent: "\<not> push_ok m \<Longrightarrow> filter emitted (influx_modem m) = []"
  by (rule log_not_emitted[OF influx_modem_fail])

lemma status_line_written:
  "push_ok m \<Longrightarrow>
   Write (ModemStatus (push_tags m) (status_of m (fst (Get3gpp m))) (now m)) \<in> set (influx_modem m)"
  by (simp add: influx_modem_ok influx_status_eq)

lemma influx_signal_no_header: "filter is_header (influx_signal m tags ts) = []"
  by (simp add: influx_signal_def soft_def case_prod_beta option.case_eq_if)

lemma influx_bearers_no_header: "filter is_header (influx_bearers tags ts bs) = []"
  by (induction bs) (simp_all add: Let_def soft_def case_prod_beta option.case_eq_if)

lemma log_not_header: "list_all is_log es \<Longrightarrow> filter is_header es = []"
proof (induction es)
  case Nil
  then show ?case by simp
next
  case (Cons e es)
  then show ?case by (cases e) simp_all
qed

lemma influx_modem_no_header: "filter is_header (influx_modem m) = []"
proof (cases "push_ok m")
  case True
  then show ?thesis
    by (simp add: influx_modem_ok influx_status_eq log_not_header[OF identity_logs_log]
          log_not_header[OF status_logs_log] influx_signal_no_header influx_bearers_no_header)
next
  case False
  then show ?thesis
    by (simp add: log_not_header[OF influx_modem_fail])
qed

lemma rat_log_in_influx_modem:
  "push_ok m \<Longrightarrow> e \<in> set (fst (read_rat (fst (GetAccessTechnologies m)))) \<Longrightarrow>
   e \<in> set (influx_modem m)"
  by (simp add: influx_modem_ok identity_logs_def)

section \<open>Registered and roaming\<close>

lemma collect_state_registered:
  assumes "snd (GetState m 1) = None"
  shows "(Metric ''modem_registered'' 1 l \<in> set (collect_state apn pf m m3 lbl)) =
         (l = lbl \<and> (state_String (fst (GetState m 1)) = ''Registered'' \<or>
                      state_String (fst (GetState m 1)) = ''Connected''))"
proof -
  have a: "Metric ''modem_registered'' 1 l \<notin> set (collect_location pf m m3 lbl)"
    by (rule named_in_notin[OF collect_location_named]) (simp add: location_names_def signal_names_def)
  have b: "Metric ''modem_registered'' 1 l \<notin> set (reconcile apn m)"
    by (rule named_in_notin[OF reconcile_named[of "{}"]]) simp
  from assms a b show ?thesis
    by (auto simp add: collect_state_def case_prod_beta)
qed

lemma collect_state_failed:
  "snd (GetState m 1) \<noteq> None \<Longrightarrow> list_all is_log (collect_state apn pf m m3 lbl)"
  by (auto simp add: collect_state_def case_prod_beta option.case_eq_if)

lemma enable_events_quiet: "list_all (named_in {}) (enable_events m)"
  by (simp add: enable_events_def)

lemma log_named_in: "list_all is_log es \<Longrightarrow> list_all (named_in N) es"
proof (induction es)
  case Nil
  then show ?case by simp
next
  case (Cons e es)
  then show ?case by (cases e) simp_all
qed

lemma roaming_sample_reread:
  assumes "Metric ''modem_roaming'' v l \<in> set (collect_modem apn pf m)"
  shows "snd (GetState m 1) = None \<and>
         collect_modem apn pf m =
           enable_events m @ collect_state apn pf m (fst (Get3gpp m)) (labels m)"
proof -
  from collect_modem_cases[of apn pf m] show ?thesis
  proof
    assume "list_all (named_in {}) (collect_modem apn pf m)"
    from named_in_notin[OF this] assms show ?thesis by simp
  next
    assume h: "enable_ok m \<and> identity_ok m \<and> collect_modem apn pf m =
      enable_events m @ collect_state apn pf m (fst (Get3gpp m)) (labels m)"
    have "snd (GetState m 1) = None"
    proof (rule ccontr)
      assume "snd (GetState m 1) \<noteq> None"
      then have "list_all (named_in {}) (collect_state apn pf m (fst (Get3gpp m)) (labels m))"
        by (intro log_named_in collect_state_failed)
      with h have "list_all (named_in {}) (collect_modem apn pf m)"
        by (simp add: enable_events_quiet)
      from named_in_notin[OF this] assms show False by simp
    qed
    with h show ?thesis by simp
  qed
qed

lemma status_of_registered:
  "st_registered (status_of m m3) =
     (snd (GetState m 0) = None \<and> 8 \<le> state_num (fst (GetState m 0)))"
  by (simp add: status_of_def read_state_def case_prod_beta option.case_eq_if)

section \<open>Calls on bearers\<close>

lemma bearer_ops_append: "bearer_ops (xs @ ys) = bearer_ops xs @ bearer_ops ys"
  by (simp add: bearer_ops_def calls_of_append)

lemma log_no_bearer_ops: "list_all is_log es \<Longrightarrow> bearer_ops es = []"
  by (simp add: bearer_ops_def log_no_calls)

lemma emit_signals_calls: "calls_of (emit_signals sps lbl) = []"
  by (induction sps) simp_all

lemma emit_hex_calls: "calls_of (emit_hex name h lbl) = []"
  by (simp add: emit_hex_def case_prod_beta option.case_eq_if)

lemma collect_signal_bearer_ops: "bearer_ops (collect_signal m lbl) = []"
  by (simp add: bearer_ops_def collect_signal_def calls_of_append emit_signals_calls
        case_prod_beta option.case_eq_if)

lemma collect_opcode_bearer_ops: "bearer_ops (collect_opcode pf m m3 lbl) = []"
  by (simp add: collect_opcode_def bearer_ops_append collect_signal_bearer_ops
        case_prod_beta option.case_eq_if)
     (simp add: bearer_ops_def)

lemma collect_roaming_bearer_ops: "bearer_ops (collect_roaming pf m m3 lbl) = []"
  using collect_opcode_bearer_ops[of pf m m3 lbl]
  by (simp add: collect_roaming_def bearer_ops_def case_prod_beta option.case_eq_if)

lemma collect_location_bearer_ops: "bearer_ops (collect_location pf m m3 lbl) = []"
  using collect_roaming_bearer_ops[of pf m m3 lbl]
  by (simp add: collect_location_def bearer_ops_def calls_of_append emit_hex_calls
        case_prod_beta option.case_eq_if)

lemma delete_bearers_calls: "calls_of (delete_bearers m bs) = clear_calls bs"
  by (induction bs) (simp_all add: clear_calls_def calls_of_append option.case_eq_if)

lemma reconcile_calls:
  "apn \<noteq> [] \<Longrightarrow>
   calls_of (reconcile apn m) =
     clear_calls (fst (GetBearers m)) @
     (if snd (GetSimpleModem m) = None then [CallConnect apn] else [])"
  by (simp add: reconcile_def calls_of_append delete_bearers_calls
        case_prod_beta option.case_eq_if)

lemma clear_calls_bearer_ops: "filter is_bearer_op (clear_calls bs) = clear_calls bs"
  by (induction bs) (simp_all add: clear_calls_def)

lemma collect_state_bearer_ops:
  "snd (GetState m 1) = None \<Longrightarrow>
   bearer_ops (collect_state apn pf m m3 lbl) =
     (if state_String (fst (GetState m 1)) = ''Registered'' \<and> apn \<noteq> []
      then clear_calls (fst (GetBearers m)) @
           (if snd (GetSimpleModem m) = None then [CallConnect apn] else [])
      else [])"
  using collect_location_bearer_ops[of pf m m3 lbl]
  by (simp add: collect_state_def bearer_ops_def calls_of_append reconcile_calls
        clear_calls_bearer_ops case_prod_beta)
     (simp add: reconcile_def)

lemma collect_modem_no_bearer_ops:
  "\<not> (enable_ok m \<and> identity_ok m \<and> snd (GetState m 1) = None) \<Longrightarrow>
   bearer_ops (collect_modem apn pf m) = []"
proof (cases "enable_ok m")
  case False
  then show ?thesis
    by (auto simp add: collect_modem_def enable_ok_def bearer_ops_def
          case_prod_beta option.case_eq_if)
next
  case e: True
  assume h: "\<not> (enable_ok m \<and> identity_ok m \<and> snd (GetState m 1) = None)"
  have q: "bearer_ops (enable_events m) = []"
    by (simp add: enable_events_def bearer_ops_def)
  show ?thesis
  proof (cases "identity_ok m")
    case False
    then obtain a where "collect_identity apn pf m = [Log a]"
      using collect_identity_fail by blast
    with e q show ?thesis
      by (simp add: collect_modem_ok bearer_ops_append) (simp add: bearer_ops_def)
  next
    case True
    with e h have "snd (GetState m 1) \<noteq> None" by simp
    from log_no_bearer_ops[OF collect_state_failed[OF this]] e True q show ?thesis
      by (simp add: collect_modem_ok collect_identity_ok bearer_ops_append)
  qed
qed

lemma collect_modem_bearer_ops:
  assumes "enable_ok m" "identity_ok m" "snd (GetState m 1) = None"
  shows "bearer_ops (collect_modem apn pf m) =
     (if state_String (fst (GetState m 1)) = ''Registered'' \<and> apn \<noteq> []
      then clear_calls (fst (GetBearers m)) @
           (if snd (GetSimpleModem m) = None then [CallConnect apn] else [])
      else [])"
proof -
  have "bearer_ops (enable_events m) = []"
    by (simp add: enable_events_def bearer_ops_def)
  with assms show ?thesis
    by (simp add: collect_modem_ok collect_identity_ok bearer_ops_append
          collect_state_bearer_ops)
qed

lemma collect_state_samples:
  "snd (GetState m 1) = None \<Longrightarrow> state_String (fst (GetState m 1)) = ''Registered'' \<Longrightarrow>
   Metric ''modem_registered'' 1 lbl \<in> set (collect_state apn pf m m3 lbl) \<and>
   Metric ''modem_connected'' 0 lbl \<in> set (collect_state apn pf m m3 lbl)"
  by (simp add: collect_state_def case_prod_beta)

section \<open>Reads that fail\<close>

lemma collect_roaming_unread:
  "snd (GetRegistrationState m3) \<noteq> None \<Longrightarrow> list_all is_log (collect_roaming pf m m3 lbl)"
  by (auto simp add: collect_roaming_def case_prod_beta option.case_eq_if)

lemma collect_opcode_unread:
  "snd (GetOperatorCode m3) \<noteq> None \<Longrightarrow> list_all is_log (collect_opcode pf m m3 lbl)"
  by (auto simp add: collect_opcode_def case_prod_beta option.case_eq_if)

lemma collect_roaming_opcode_unread:
  "snd (GetOperatorCode m3) \<noteq> None \<Longrightarrow>
   list_all (named_in {''modem_roaming''}) (collect_roaming pf m m3 lbl)"
  using log_named_in[OF collect_opcode_unread, of m3 "{''modem_roaming''}" pf m lbl]
  by (simp add: collect_roaming_def case_prod_beta option.case_eq_if)

lemma collect_location_unread:
  "snd (GetLocation m) \<noteq> None \<or> snd (GetCurrentLocation (fst (GetLocation m))) \<noteq> None \<Longrightarrow>
   list_all is_log (collect_location pf m m3 lbl)"
  by (auto simp add: collect_location_def case_prod_beta option.case_eq_if)

lemma collect_location_with:
  assumes "list_all (named_in N) (collect_roaming pf m m3 lbl)"
    and "{''modem_cellid'', ''modem_lac'', ''modem_tac''} \<subseteq> N"
  shows "list_all (named_in N) (collect_location pf m m3 lbl)"
  using assms
  by (simp add: collect_location_def emit_hex_named case_prod_beta option.case_eq_if)

lemma collect_state_with:
  assumes "list_all (named_in N) (collect_location pf m m3 lbl)"
    and "state_names \<subseteq> N"
  shows "list_all (named_in N) (collect_state apn pf m m3 lbl)"
  using assms
  by (simp add: collect_state_def reconcile_named state_names_def
        case_prod_beta option.case_eq_if)

lemma collect_modem_with:
  assumes "list_all (named_in N) (collect_state apn pf m (fst (Get3gpp m)) (labels m))"
  shows "list_all (named_in N) (collect_modem apn pf m)"
proof -
  from collect_modem_cases[of apn pf m] show ?thesis
  proof
    assume "list_all (named_in {}) (collect_modem apn pf m)"
    then show ?thesis
      by (rule list_all_named_in_mono) simp
  next
    assume "enable_ok m \<and> identity_ok m \<and> collect_modem apn pf m =
      enable_events m @ collect_state apn pf m (fst (Get3gpp m)) (labels m)"
    with assms show ?thesis
      by (simp add: enable_events_def)
  qed
qed

lemma collect_opcode_not_a_number:
  "snd (GetOperatorCode m3) = None \<Longrightarrow> snd (pf (fst (GetOperatorCode m3))) \<noteq> None \<Longrightarrow>
   collect_opcode pf m m3 lbl = collect_signal m lbl"
  by (auto simp add: collect_opcode_def case_prod_beta option.case_eq_if)

lemma status_of_unread:
  "(snd (GetState m 0) \<noteq> None \<longrightarrow>
      st_state (status_of m m3) = ''unknown'' \<and> \<not> st_registered (status_of m m3) \<and>
      \<not> st_connected (status_of m m3)) \<and>
   (snd (GetRegistrationState m3) \<noteq> None \<longrightarrow>
      st_regstate (status_of m m3) = ''unknown'' \<and> \<not> st_roaming (status_of m m3)) \<and>
   (snd (GetOperatorCode m3) \<noteq> None \<longrightarrow> st_operatorcode (status_of m m3) = 0) \<and>
   (snd (GetOperatorCode m3) = None \<and> fst (GetOperatorCode m3) \<noteq> [] \<and>
    snd (ParseInt (fst (GetOperatorCode m3)) 10 32) \<noteq> None \<longrightarrow>
      st_operatorcode (status_of m m3) = 0) \<and>
   (snd (GetLocation m) \<noteq> None \<or> snd (GetCurrentLocation (fst (GetLocation m))) \<noteq> None \<longrightarrow>
      st_cellid (status_of m m3) = [] \<and> st_lac (status_of m m3) = [] \<and>
      st_tac (status_of m m3) = [])"
  by (auto simp add: status_of_def read_state_def read_regstate_def read_opcode_def
        read_location_def case_prod_beta option.case_eq_if)

lemma read_opcode_not_a_number:
  "snd (GetOperatorCode m3) = None \<Longrightarrow> fst (GetOperatorCode m3) \<noteq> [] \<Longrightarrow>
   snd (ParseInt (fst (GetOperatorCode m3)) 10 32) = Some err \<Longrightarrow>
   read_opcode m3 = ([Log [S ''error parsing operator code:'', EN err]], 0)"
  by (simp add: read_opcode_def case_prod_beta)

section \<open>ParseInt on hexadecimal strings\<close>

lemma lower_eq: "lower n = (if odd (n div 32) then n else n + 32)"
proof -
  have "lower n = set_bit 5 n"
    by (simp add: lower_def set_bit_eq_or)
  also have "\<dots> = n + of_bool (\<not> bit n 5) * 2 ^ 5"
    by (rule set_bit_eq)
  also have "\<dots> = (if odd (n div 32) then n else n + 32)"
    by (simp add: bit_iff_odd)
  finally show ?thesis .
qed

lemma digit_val_hex:
  "is_hex_digit c \<Longrightarrow> digit_val (of_char c) = Some (hex_digit_value c) \<and> hex_digit_value c < 16"
  unfolding is_hex_digit_def hex_alphabet_def set_simps
  by (elim insertE emptyE)
     (simp_all add: digit_val_def lower_eq hex_digit_value_def position_def)

lemma digit_val_small:
  assumes "digit_val n = Some d" "d < 16"
  shows "n \<in> {48, 49, 50, 51, 52, 53, 54, 55, 56, 57, 65, 66, 67, 68, 69, 70,
               97, 98, 99, 100, 101, 102}"
proof -
  from assms have "48 \<le> n \<and> n \<le> 57 \<or> 65 \<le> n \<and> n \<le> 70 \<or> 97 \<le> n \<and> n \<le> 102"
    by (auto simp add: digit_val_def lower_eq split: if_splits)
  then show ?thesis
    by (elim disjE) (simp, presburger)+
qed

lemma char_of_hex:
  "n \<in> {48, 49, 50, 51, 52, 53, 54, 55, 56, 57, 65, 66, 67, 68, 69, 70,
          97, 98, 99, 100, 101, 102} \<Longrightarrow> is_hex_digit (char_of (n::nat))"
  by (elim insertE emptyE)
     (simp_all add: is_hex_digit_def hex_alphabet_def char_of_def bit_0)

lemma digit_val_other:
  assumes "\<not> is_hex_digit c" "digit_val (of_char c) = Some d"
  shows "16 \<le> d"
proof (rule ccontr)
  assume "\<not> 16 \<le> d"
  then have "d < 16" by simp
  from digit_val_small[OF assms(2) this] have "is_hex_digit (char_of (of_char c :: nat))"
    by (rule char_of_hex)
  with assms(1) show False by simp
qed

lemma hex_acc_Nil: "hex_acc n [] = n"
  by (simp add: hex_acc_def)

lemma hex_acc_Cons: "hex_acc n (c # cs) = hex_acc (16 * n + hex_digit_value c) cs"
  by (simp add: hex_acc_def)

lemma hex_acc_ge: "n \<le> hex_acc n cs"
proof (induction cs arbitrary: n)
  case Nil
  then show ?case by (simp add: hex_acc_Nil)
next
  case (Cons c cs)
  have "n \<le> 16 * n + hex_digit_value c" by simp
  also have "\<dots> \<le> hex_acc (16 * n + hex_digit_value c) cs" by (rule Cons.IH)
  finally show ?case by (simp add: hex_acc_Cons)
qed

lemma cutoff16_eq: "cutoff16 = 2 ^ 60"
  by (simp add: cutoff16_def maxUint64_def)

lemma loop_step:
  assumes "is_hex_digit c" "16 * n + hex_digit_value c < 2 ^ 64"
  shows "ParseUint_loop 16 cutoff16 (2 ^ 64 - 1) n (c # cs) =
         ParseUint_loop 16 cutoff16 (2 ^ 64 - 1) (16 * n + hex_digit_value c) cs"
proof -
  from digit_val_hex[OF assms(1)]
  have d: "digit_val (of_char c) = Some (hex_digit_value c)" and l: "hex_digit_value c < 16"
    by simp_all
  from assms(2) have n: "n < 2 ^ 60" by simp
  have m: "n * 16 mod 2 ^ 64 = n * 16"
    using n by simp
  have m': "(n * 16 + hex_digit_value c) mod 2 ^ 64 = n * 16 + hex_digit_value c"
    using assms(2) by (simp add: mult.commute)
  from assms(2) have le: "n * 16 + hex_digit_value c \<le> 2 ^ 64 - 1"
    by (simp add: mult.commute)
  show ?thesis
    using d l n le
    by (simp add: cutoff16_eq m m' Let_def del: One_nat_def) (simp add: mult.commute)
qed

lemma loop_ok:
  "list_all is_hex_digit cs \<Longrightarrow> hex_acc n cs < 2 ^ 64 \<Longrightarrow>
   ParseUint_loop 16 cutoff16 (2 ^ 64 - 1) n cs = (hex_acc n cs, None)"
proof (induction cs arbitrary: n)
  case Nil
  then show ?case by (simp add: hex_acc_Nil)
next
  case (Cons c cs)
  let ?a = "16 * n + hex_digit_value c"
  from Cons.prems have h: "is_hex_digit c" "list_all is_hex_digit cs" by simp_all
  from Cons.prems have b: "hex_acc ?a cs < 2 ^ 64" by (simp add: hex_acc_Cons)
  with hex_acc_ge[of ?a cs] have "?a < 2 ^ 64" by linarith
  from loop_step[OF h(1) this] Cons.IH[OF h(2) b] show ?case
    by (simp add: hex_acc_Cons)
qed

lemma loop_range:
  "list_all is_hex_digit cs \<Longrightarrow> n < 2 ^ 64 \<Longrightarrow> 2 ^ 64 \<le> hex_acc n cs \<Longrightarrow>
   ParseUint_loop 16 cutoff16 (2 ^ 64 - 1) n cs = (2 ^ 64 - 1, Some ErrRange)"
proof (induction cs arbitrary: n)
  case Nil
  then show ?case by (simp add: hex_acc_Nil)
next
  case (Cons c cs)
  let ?a = "16 * n + hex_digit_value c"
  from Cons.prems have h: "is_hex_digit c" "list_all is_hex_digit cs" by simp_all
  from digit_val_hex[OF h(1)]
  have d: "digit_val (of_char c) = Some (hex_digit_value c)" and l: "hex_digit_value c < 16"
    by simp_all
  show ?case
  proof (cases "n < 2 ^ 60")
    case False
    with d l show ?thesis
      by (simp add: cutoff16_eq)
  next
    case True
    with l have a: "?a < 2 ^ 64" by simp
    from Cons.prems have "2 ^ 64 \<le> hex_acc ?a cs" by (simp add: hex_acc_Cons)
    from loop_step[OF h(1) a] Cons.IH[OF h(2) a this] show ?thesis by simp
  qed
qed

lemma loop_forms:
  "snd (ParseUint_loop b c mv n cs) = None \<or>
   ParseUint_loop b c mv n cs = (0, Some ErrSyntax) \<or>
   ParseUint_loop b c mv n cs = (mv, Some ErrRange)"
  by (induction cs arbitrary: n) (auto simp add: Let_def split: option.splits)

lemma loop_invalid:
  "\<not> list_all is_hex_digit cs \<Longrightarrow> n < 2 ^ 64 \<Longrightarrow>
   snd (ParseUint_loop 16 cutoff16 (2 ^ 64 - 1) n cs) \<noteq> None"
proof (induction cs arbitrary: n)
  case Nil
  then show ?case by simp
next
  case (Cons c cs)
  show ?case
  proof (cases "is_hex_digit c")
    case False
    then have "digit_val (of_char c) = None \<or>
      (\<exists>d. digit_val (of_char c) = Some d \<and> 16 \<le> d)"
      using digit_val_other by (cases "digit_val (of_char c)") auto
    then show ?thesis by auto
  next
    case True
    with Cons.prems have r: "\<not> list_all is_hex_digit cs" by simp
    from digit_val_hex[OF True]
    have d: "digit_val (of_char c) = Some (hex_digit_value c)" and l: "hex_digit_value c < 16"
      by simp_all
    show ?thesis
    proof (cases "n < 2 ^ 60")
      case False
      with d l show ?thesis by (simp add: cutoff16_eq)
    next
      case n: True
      with l have a: "16 * n + hex_digit_value c < 2 ^ 64" by simp
      from loop_step[OF True a] Cons.IH[OF r a] show ?thesis by simp
    qed
  qed
qed

lemma ParseUint_16_64:
  "s \<noteq> [] \<Longrightarrow> ParseUint s 16 64 = ParseUint_loop 16 cutoff16 (2 ^ 64 - 1) 0 s"
  by (simp add: ParseUint_def cutoff16_def)

lemma ParseUint_valid:
  assumes "valid_hex s" "hex_value s < 2 ^ 64"
  shows "ParseUint s 16 64 = (hex_value s, None)"
proof -
  from assms(1) have s: "s \<noteq> []" and h: "list_all is_hex_digit s"
    by (simp_all add: valid_hex_def)
  from assms(2) have "hex_acc 0 s < 2 ^ 64"
    by (simp only: hex_value_def)
  from loop_ok[OF h this] show ?thesis
    by (simp only: ParseUint_16_64[OF s] hex_value_def)
qed

lemma ParseUint_range:
  assumes "valid_hex s" "2 ^ 64 \<le> hex_value s"
  shows "ParseUint s 16 64 = (2 ^ 64 - 1, Some ErrRange)"
proof -
  from assms(1) have s: "s \<noteq> []" and h: "list_all is_hex_digit s"
    by (simp_all add: valid_hex_def)
  from assms(2) have "2 ^ 64 \<le> hex_acc 0 s"
    by (simp only: hex_value_def)
  from loop_range[OF h _ this] show ?thesis
    by (simp only: ParseUint_16_64[OF s]) simp
qed

lemma ParseUint_invalid:
  assumes "\<not> valid_hex s"
  shows "ParseUint s 16 64 = (0, Some ErrSyntax) \<or> ParseUint s 16 64 = (2 ^ 64 - 1, Some ErrRange)"
proof (cases "s = []")
  case True
  then show ?thesis by (simp add: ParseUint_def)
next
  case False
  with assms have "\<not> list_all is_hex_digit s" by (simp add: valid_hex_def)
  then have "snd (ParseUint_loop 16 cutoff16 (2 ^ 64 - 1) 0 s) \<noteq> None"
    by (rule loop_invalid) simp
  with loop_forms[of 16 cutoff16 "2 ^ 64 - 1" 0 s] show ?thesis
    unfolding ParseUint_16_64[OF False] by blast
qed

lemma int64_id: "- (2 ^ 63) \<le> x \<Longrightarrow> x < 2 ^ 63 \<Longrightarrow> int64 x = x"
  by (simp add: int64_def)

lemma valid_hex_no_sign: "valid_hex s \<Longrightarrow> hd s \<noteq> CHR ''+'' \<and> hd s \<noteq> CHR ''-''"
  by (cases s) (auto simp add: valid_hex_def is_hex_digit_def hex_alphabet_def)

lemma ParseInt_finish:
  "s \<noteq> [] \<Longrightarrow>
   ParseInt s 16 64 =
     finish (hd s = CHR ''-'')
       (ParseUint (if hd s = CHR ''+'' \<or> hd s = CHR ''-'' then tl s else s) 16 64)"
  by (simp add: ParseInt_def finish_def Let_def case_prod_beta int64_def)

lemma finish_ok_pos: "v < 2 ^ 63 \<Longrightarrow> finish False (v, None) = (int v, None)"
  by (simp add: finish_def int64_id)

lemma finish_ok_neg: "v \<le> 2 ^ 63 \<Longrightarrow> finish True (v, None) = (- int v, None)"
proof (cases "v = 2 ^ 63")
  case True
  then show ?thesis by (simp add: finish_def int64_def)
next
  case False
  assume "v \<le> 2 ^ 63"
  with False have "v < 2 ^ 63" by simp
  then show ?thesis by (simp add: finish_def int64_id)
qed

lemma finish_big_pos: "2 ^ 63 \<le> v \<Longrightarrow> snd (finish False (v, e)) \<noteq> None"
  by (simp add: finish_def)

lemma finish_big_neg: "2 ^ 63 < v \<Longrightarrow> snd (finish True (v, e)) \<noteq> None"
  by (simp add: finish_def)

lemma ParseUint_cases:
  "(valid_hex s \<and> hex_value s < 2 ^ 64 \<and> ParseUint s 16 64 = (hex_value s, None)) \<or>
   ParseUint s 16 64 = (0, Some ErrSyntax) \<and> \<not> valid_hex s \<or>
   ParseUint s 16 64 = (2 ^ 64 - 1, Some ErrRange) \<and> \<not> (valid_hex s \<and> hex_value s < 2 ^ 64)"
proof (cases "valid_hex s")
  case False
  with ParseUint_invalid[OF False] show ?thesis by blast
next
  case True
  show ?thesis
  proof (cases "hex_value s < 2 ^ 64")
    case True
    with \<open>valid_hex s\<close> ParseUint_valid show ?thesis by blast
  next
    case False
    then have "2 ^ 64 \<le> hex_value s" by simp
    from ParseUint_range[OF \<open>valid_hex s\<close> this] False show ?thesis by blast
  qed
qed

lemma ParseInt_signed_hex:
  "(signed_hex s = Some v \<longrightarrow> ParseInt s 16 64 = (v, None)) \<and>
   (signed_hex s = None \<longrightarrow> snd (ParseInt s 16 64) \<noteq> None)"
proof (cases "s = []")
  case True
  then show ?thesis
    by (simp add: signed_hex_def valid_hex_def ParseInt_def)
next
  case ne: False
  consider (minus) "hd s = CHR ''-''" | (plus) "hd s = CHR ''+''"
    | (none) "hd s \<noteq> CHR ''-''" "hd s \<noteq> CHR ''+''"
    by blast
  then show ?thesis
  proof cases
    case minus
    from ParseUint_cases[of "tl s"] show ?thesis
    proof (elim disjE conjE)
      assume "valid_hex (tl s)" "ParseUint (tl s) 16 64 = (hex_value (tl s), None)"
      with ne minus show ?thesis
        using finish_ok_neg[of "hex_value (tl s)"] finish_big_neg[of "hex_value (tl s)" None]
        by (cases "hex_value (tl s) \<le> 2 ^ 63") (simp_all add: signed_hex_def ParseInt_finish)
    next
      assume "ParseUint (tl s) 16 64 = (0, Some ErrSyntax)" "\<not> valid_hex (tl s)"
      with ne minus show ?thesis
        by (simp add: signed_hex_def ParseInt_finish finish_def)
    next
      assume "ParseUint (tl s) 16 64 = (2 ^ 64 - 1, Some ErrRange)"
        "\<not> (valid_hex (tl s) \<and> hex_value (tl s) < 2 ^ 64)"
      with ne minus show ?thesis
        by (auto simp add: signed_hex_def ParseInt_finish finish_def)
    qed
  next
    case plus
    from ParseUint_cases[of "tl s"] show ?thesis
    proof (elim disjE conjE)
      assume "valid_hex (tl s)" "ParseUint (tl s) 16 64 = (hex_value (tl s), None)"
      with ne plus show ?thesis
        using finish_ok_pos[of "hex_value (tl s)"] finish_big_pos[of "hex_value (tl s)" None]
        by (cases "hex_value (tl s) < 2 ^ 63") (simp_all add: signed_hex_def ParseInt_finish)
    next
      assume "ParseUint (tl s) 16 64 = (0, Some ErrSyntax)" "\<not> valid_hex (tl s)"
      with ne plus show ?thesis
        by (simp add: signed_hex_def ParseInt_finish finish_def)
    next
      assume "ParseUint (tl s) 16 64 = (2 ^ 64 - 1, Some ErrRange)"
        "\<not> (valid_hex (tl s) \<and> hex_value (tl s) < 2 ^ 64)"
      with ne plus show ?thesis
        by (auto simp add: signed_hex_def ParseInt_finish finish_def)
    qed
  next
    case none
    from ParseUint_cases[of s] show ?thesis
    proof (elim disjE conjE)
      assume "valid_hex s" "ParseUint s 16 64 = (hex_value s, None)"
      with ne none show ?thesis
        using finish_ok_pos[of "hex_value s"] finish_big_pos[of "hex_value s" None]
        by (cases "hex_value s < 2 ^ 63") (simp_all add: signed_hex_def ParseInt_finish)
    next
      assume "ParseUint s 16 64 = (0, Some ErrSyntax)" "\<not> valid_hex s"
      with ne none show ?thesis
        by (simp add: signed_hex_def ParseInt_finish finish_def)
    next
      assume "ParseUint s 16 64 = (2 ^ 64 - 1, Some ErrRange)"
        "\<not> (valid_hex s \<and> hex_value s < 2 ^ 64)"
      with ne none show ?thesis
        by (auto simp add: signed_hex_def ParseInt_finish finish_def)
    qed
  qed
qed

lemma ParseInt_valid_range:
  assumes "valid_hex s" "2 ^ 63 \<le> hex_value s"
  shows "ParseInt s 16 64 = (2 ^ 63 - 1, Some ErrRange)"
proof -
  from assms(1) have ne: "s \<noteq> []" by (simp add: valid_hex_def)
  from valid_hex_no_sign[OF assms(1)] ne
  have p: "ParseInt s 16 64 = finish False (ParseUint s 16 64)"
    by (simp add: ParseInt_finish)
  show ?thesis
  proof (cases "hex_value s < 2 ^ 64")
    case True
    from ParseUint_valid[OF assms(1) True] assms(2) show ?thesis
      by (simp add: p finish_def)
  next
    case False
    then have "2 ^ 64 \<le> hex_value s" by simp
    from ParseUint_range[OF assms(1) this] show ?thesis
      by (simp add: p finish_def)
  qed
qed

lemma signed_hex_valid:
  "valid_hex s \<Longrightarrow> hex_value s < 2 ^ 63 \<Longrightarrow> signed_hex s = Some (int (hex_value s))"
  using valid_hex_no_sign[of s] by (simp add: signed_hex_def)

lemma float64_of_int64_exact: "n < 2 ^ 53 \<Longrightarrow> float64_of_int64 (int n) = real n"
  by (simp add: float64_of_int64_def round53_def)

lemma hex_examples:
  "valid_hex ''1A2B''" "hex_value ''1A2B'' = 6699"
  "signed_hex ''+ff'' = Some 255" "signed_hex ''0x1F'' = None" "signed_hex [] = None"
  "valid_hex ''8000000000000000''" "hex_value ''8000000000000000'' = 2 ^ 63"
  "\<not> valid_hex ''-1F''" "signed_hex ''-1F'' = Some (- 31)"
  "valid_hex ''20000000000001''" "hex_value ''20000000000001'' = 2 ^ 53 + 1"
  by (simp_all add: signed_hex_def valid_hex_def is_hex_digit_def hex_alphabet_def
        hex_value_def hex_acc_def hex_digit_value_def position_def)

lemma finish_None_err:
  "r = (0, Some ErrSyntax) \<or> r = (2 ^ 64 - 1, Some ErrRange) \<Longrightarrow>
   snd (finish neg r) = Some ErrSyntax \<or> snd (finish neg r) = Some ErrRange"
  by (auto simp add: finish_def)

lemma finish_errors:
  "snd (finish neg (v, None)) = None \<or> snd (finish neg (v, None)) = Some ErrRange"
  by (simp add: finish_def)

lemma ParseInt_errors:
  "snd (ParseInt s 16 64) = None \<or> snd (ParseInt s 16 64) = Some ErrSyntax \<or>
   snd (ParseInt s 16 64) = Some ErrRange"
proof (cases "s = []")
  case True
  then show ?thesis by (simp add: ParseInt_def)
next
  case False
  let ?t = "if hd s = CHR ''+'' \<or> hd s = CHR ''-'' then tl s else s"
  from ParseUint_cases[of ?t] show ?thesis
  proof (elim disjE conjE)
    assume "ParseUint ?t 16 64 = (hex_value ?t, None)"
    with finish_errors[of "hd s = CHR ''-''" "hex_value ?t"] False show ?thesis
      by (simp only: ParseInt_finish[OF False]) blast
  next
    assume "ParseUint ?t 16 64 = (0, Some ErrSyntax)"
    with finish_None_err[of "ParseUint ?t 16 64" "hd s = CHR ''-''"] show ?thesis
      by (simp only: ParseInt_finish[OF False]) blast
  next
    assume "ParseUint ?t 16 64 = (2 ^ 64 - 1, Some ErrRange)"
    with finish_None_err[of "ParseUint ?t 16 64" "hd s = CHR ''-''"] show ?thesis
      by (simp only: ParseInt_finish[OF False]) blast
  qed
qed

lemma emit_hex_failed:
  assumes "signed_hex h = None"
  shows "emit_hex name h lbl = [Log [EN ErrSyntax]] \<or> emit_hex name h lbl = [Log [EN ErrRange]]"
proof -
  from assms ParseInt_signed_hex[of h 0] have "snd (ParseInt h 16 64) \<noteq> None"
    by simp
  with ParseInt_errors[of h] show ?thesis
    by (auto simp add: emit_hex_def case_prod_beta)
qed

lemma hex_examples_signed:
  "signed_hex ''+8000000000000000'' = None" "signed_hex ''1G'' = None"
  by (simp_all add: signed_hex_def valid_hex_def is_hex_digit_def hex_alphabet_def
        hex_value_def hex_acc_def hex_digit_value_def position_def)

lemma opcode_log_in_influx_modem:
  "push_ok m \<Longrightarrow> e \<in> set (fst (read_opcode (fst (Get3gpp m)))) \<Longrightarrow> e \<in> set (influx_modem m)"
  by (simp add: influx_modem_ok influx_status_eq status_logs_def)

lemma simple_modem_failure_logged:
  assumes "snd (GetState m 1) = None" "state_String (fst (GetState m 1)) = ''Registered''"
    "apn \<noteq> []" "snd (GetSimpleModem m) = Some err"
  shows "Log [E (Some err)] \<in> set (collect_state apn pf m m3 lbl)"
proof -
  from assms(3,4) have "Log [E (Some err)] \<in> set (reconcile apn m)"
    by (simp add: reconcile_def case_prod_beta)
  with assms(1,2) show ?thesis
    by (simp add: collect_state_def case_prod_beta)
qed

section \<open>Unfolding the model on an example\<close>

lemmas pull_defs = Collect_def collect_modem_def collect_identity_def collect_state_def
  reconcile_def collect_location_def emit_hex_def collect_roaming_def collect_opcode_def
  collect_signal_def ToLower_def

lemmas parse_defs = ParseInt_def ParseUint_def maxUint64_def digit_val_def lower_def int64_def
  float64_of_int64_def round53_def char_of_def bit_0 Let_def

lemmas push_defs = influxHandler_def influx_modem_def influx_status_def influx_signal_def
  read_rat_def read_phone_def read_location_def read_regstate_def read_state_def
  read_opcode_def read_msgcount_def soft_def ToLower_def push_tags_def status_of_def

lemmas example_defs = modem_ok_def sim_ok_def modem3gpp_ok_def location_ok_def signal_ok_def
  sample_gsm_def sample_lte_def bearer_a_def bearer_b_def bearer_new_def simple_ok_def
  messaging_ok_def labels_ok_def parse_digits_def

section \<open>Properties of the two emitters\<close>

text \<open>
  C1 (as amended). Pull emitter: when the read of the IMEI, the SIM identifier, the IMSI,
  the SIM operator identifier, the SIM operator name or the network operator name fails,
  no sample of that modem is sent, and the samples of the other modems are what they are
  without it. Push emitter: the same holds when the read of the SIM identifier or of the
  IMSI fails; a failing read of the IMEI, of the SIM operator identifier, of the SIM
  operator name or of the network operator name does not skip the modem: whenever
  \<open>Get3gpp\<close>, \<open>GetSim\<close>, the SIM identifier, the IMSI and the access technologies are
  read, the status line is written, tagged with what the calls returned.
\<close>

theorem identity_failure_skips_modem:
  "(snd (GetImei (fst (Get3gpp m))) \<noteq> None \<or>
    snd (GetSimIdentifier (fst (GetSim m))) \<noteq> None \<or>
    snd (GetImsi (fst (GetSim m))) \<noteq> None \<or>
    snd (Sim_GetOperatorIdentifier (fst (GetSim m))) \<noteq> None \<or>
    snd (Sim_GetOperatorName (fst (GetSim m))) \<noteq> None \<or>
    snd (GetOperatorName (fst (Get3gpp m))) \<noteq> None \<longrightarrow>
      filter emitted (collect_modem apn pf m) = [] \<and>
      filter emitted (Collect apn pf (ms @ m # ms', None)) =
        filter emitted (Collect apn pf (ms @ ms', None))) \<and>
   (snd (GetSimIdentifier (fst (GetSim m))) \<noteq> None \<or>
    snd (GetImsi (fst (GetSim m))) \<noteq> None \<longrightarrow>
      filter emitted (influx_modem m) = [] \<and>
      filter emitted (influxHandler (ms @ m # ms', None)) =
        filter emitted (influxHandler (ms @ ms', None))) \<and>
   (snd (Get3gpp m) = None \<and> snd (GetSim m) = None \<and>
    snd (GetSimIdentifier (fst (GetSim m))) = None \<and> snd (GetImsi (fst (GetSim m))) = None \<and>
    snd (GetAccessTechnologies m) = None \<longrightarrow>
      Write (ModemStatus (push_tags m) (status_of m (fst (Get3gpp m))) (now m))
        \<in> set (influx_modem m))"
proof (intro conjI impI)
  assume "snd (GetImei (fst (Get3gpp m))) \<noteq> None \<or>
    snd (GetSimIdentifier (fst (GetSim m))) \<noteq> None \<or>
    snd (GetImsi (fst (GetSim m))) \<noteq> None \<or>
    snd (Sim_GetOperatorIdentifier (fst (GetSim m))) \<noteq> None \<or>
    snd (Sim_GetOperatorName (fst (GetSim m))) \<noteq> None \<or>
    snd (GetOperatorName (fst (Get3gpp m))) \<noteq> None"
  then have "\<not> identity_ok m"
    by (auto simp: identity_ok_def)
  then show a: "filter emitted (collect_modem apn pf m) = []"
    by (rule collect_modem_silent)
  show "filter emitted (Collect apn pf (ms @ m # ms', None)) =
        filter emitted (Collect apn pf (ms @ ms', None))"
    by (simp add: Collect_def collect_loop_append a)
next
  assume "snd (GetSimIdentifier (fst (GetSim m))) \<noteq> None \<or>
    snd (GetImsi (fst (GetSim m))) \<noteq> None"
  then have "\<not> push_ok m"
    by (auto simp: push_ok_def)
  then show a: "filter emitted (influx_modem m) = []"
    by (rule influx_modem_silent)
  show "filter emitted (influxHandler (ms @ m # ms', None)) =
        filter emitted (influxHandler (ms @ ms', None))"
    by (simp add: influxHandler_def influx_loop_append a)
next
  assume "snd (Get3gpp m) = None \<and> snd (GetSim m) = None \<and>
    snd (GetSimIdentifier (fst (GetSim m))) = None \<and> snd (GetImsi (fst (GetSim m))) = None \<and>
    snd (GetAccessTechnologies m) = None"
  then have "push_ok m"
    by (simp add: push_ok_def)
  then show "Write (ModemStatus (push_tags m) (status_of m (fst (Get3gpp m))) (now m))
        \<in> set (influx_modem m)"
    by (rule status_line_written)
qed

theorem identity_failure_skips_modem_witness:
  "snd (GetImei (fst (Get3gpp modem_no_imei))) = Some ''no imei'' \<and>
   filter emitted (collect_modem [] parse_digits modem_no_imei) = [] \<and>
   filter emitted (Collect [] parse_digits ([modem_ok] @ modem_no_imei # [modem_ok], None)) =
     filter emitted (Collect [] parse_digits ([modem_ok] @ [modem_ok], None)) \<and>
   snd (GetSimIdentifier (fst (GetSim modem_no_icc))) = Some ''no icc'' \<and>
   filter emitted (influx_modem modem_no_icc) = [] \<and>
   filter emitted (influxHandler ([modem_ok] @ modem_no_icc # [modem_ok], None)) =
     filter emitted (influxHandler ([modem_ok] @ [modem_ok], None)) \<and>
   Write (ModemStatus (push_tags modem_ok) (status_of modem_ok (fst (Get3gpp modem_ok)))
     (now modem_ok)) \<in> set (influx_modem modem_ok)"
proof -
  have a: "snd (GetImei (fst (Get3gpp modem_no_imei))) = Some ''no imei''"
    by (simp add: modem_no_imei_def example_defs)
  have b: "snd (GetSimIdentifier (fst (GetSim modem_no_icc))) = Some ''no icc''"
    by (simp add: modem_no_icc_def example_defs)
  have c: "snd (Get3gpp modem_ok) = None \<and> snd (GetSim modem_ok) = None \<and>
    snd (GetSimIdentifier (fst (GetSim modem_ok))) = None \<and>
    snd (GetImsi (fst (GetSim modem_ok))) = None \<and>
    snd (GetAccessTechnologies modem_ok) = None"
    by (simp add: example_defs)
  from a b c
    identity_failure_skips_modem [of modem_no_imei "[]" parse_digits "[modem_ok]" "[modem_ok]"]
    identity_failure_skips_modem [of modem_no_icc "[]" parse_digits "[modem_ok]" "[modem_ok]"]
    identity_failure_skips_modem [of modem_ok "[]" parse_digits "[]" "[]"]
  show ?thesis by simp
qed

text \<open>
  The claim as it stands fails on the push emitter: the IMEI cannot be read, and the
  status line of the modem is written all the same, with an empty \<open>imei\<close> tag.
\<close>

theorem identity_failure_counterexample:
  "snd (GetImei (fst (Get3gpp modem_no_imei))) = Some ''no imei'' \<and>
   filter is_status (influxHandler ([modem_no_imei], None)) =
     [Write (ModemStatus
        \<lparr>tag_imei = [], tag_icc = ''8949'', tag_imsi = ''26201'', tag_operatorid = ''26201'',
         tag_operator = ''Telekom'', tag_v_operator = ''Telekom.de'', tag_mcc = ''262'',
         tag_mnc = ''01'', tag_rat = ''lte'', tag_phone_number = ''+491''\<rparr>
        \<lparr>st_power_state = ''On'', st_cellid = ''1A2B'', st_lac = ''00ff'', st_tac = ''10'',
         st_registered = True, st_connected = True, st_state = ''Connected'',
         st_operatorcode = 26201, st_roaming = False, st_regstate = ''Home'',
         st_signal_quality = 80, st_signal_quality_recent = True, st_message_count = 1\<rparr>
        1700000000)]"
  by (simp add: modem_no_imei_def push_defs parse_defs example_defs)

text \<open>
  C2 (as amended). The decode of the cell identifier, the LAC and the TAC is
  \<open>strconv.ParseInt(h, 16, 64)\<close>, sent as \<open>float64\<close>. For a non-empty string of
  hexadecimal digits whose value is below \<open>2^63\<close>, the sample is that value converted to
  \<open>float64\<close>, which is the value itself below \<open>2^53\<close>. A string of hexadecimal digits
  whose value is \<open>2^63\<close> or more gives no sample: the range error is logged. A sign in
  front of the digits is accepted as well, and the signed value is sent. Every other
  string, the empty one included, gives no sample: the decode produces one log line,
  with the syntax error or the range error, and nothing else; there is no default.
\<close>

theorem hex_decode:
  "(valid_hex h \<and> hex_value h < 2 ^ 63 \<longrightarrow>
      emit_hex name h lbl = [Metric name (float64_of_int64 (int (hex_value h))) lbl]) \<and>
   (hex_value h < 2 ^ 53 \<longrightarrow> float64_of_int64 (int (hex_value h)) = real (hex_value h)) \<and>
   (valid_hex h \<and> 2 ^ 63 \<le> hex_value h \<longrightarrow> emit_hex name h lbl = [Log [EN ErrRange]]) \<and>
   (signed_hex h = Some v \<longrightarrow> emit_hex name h lbl = [Metric name (float64_of_int64 v) lbl]) \<and>
   (signed_hex h = None \<longrightarrow> filter emitted (emit_hex name h lbl) = []) \<and>
   (signed_hex h = None \<longrightarrow>
      emit_hex name h lbl = [Log [EN ErrSyntax]] \<or> emit_hex name h lbl = [Log [EN ErrRange]])"
proof -
  have c4: "signed_hex h = Some v \<longrightarrow> emit_hex name h lbl = [Metric name (float64_of_int64 v) lbl]"
    using ParseInt_signed_hex[of h v] by (simp add: emit_hex_def)
  have c1: "valid_hex h \<and> hex_value h < 2 ^ 63 \<longrightarrow>
      emit_hex name h lbl = [Metric name (float64_of_int64 (int (hex_value h))) lbl]"
    using ParseInt_signed_hex[of h "int (hex_value h)"] signed_hex_valid[of h]
    by (simp add: emit_hex_def)
  have c2: "hex_value h < 2 ^ 53 \<longrightarrow> float64_of_int64 (int (hex_value h)) = real (hex_value h)"
    using float64_of_int64_exact by blast
  have c3: "valid_hex h \<and> 2 ^ 63 \<le> hex_value h \<longrightarrow> emit_hex name h lbl = [Log [EN ErrRange]]"
    using ParseInt_valid_range[of h] by (simp add: emit_hex_def)
  have c6: "signed_hex h = None \<longrightarrow>
      emit_hex name h lbl = [Log [EN ErrSyntax]] \<or> emit_hex name h lbl = [Log [EN ErrRange]]"
    using emit_hex_failed by blast
  have c5: "signed_hex h = None \<longrightarrow> filter emitted (emit_hex name h lbl) = []"
    using emit_hex_failed[of h name lbl] by auto
  show ?thesis
    by (intro conjI c1 c2 c3 c4 c5 c6)
qed

theorem hex_decode_witness:
  "valid_hex ''1A2B'' \<and> hex_value ''1A2B'' = 6699 \<and>
   emit_hex ''modem_cellid'' ''1A2B'' labels_ok = [Metric ''modem_cellid'' 6699 labels_ok] \<and>
   valid_hex ''8000000000000000'' \<and> hex_value ''8000000000000000'' = 2 ^ 63 \<and>
   emit_hex ''modem_cellid'' ''8000000000000000'' labels_ok = [Log [EN ErrRange]] \<and>
   signed_hex ''+ff'' = Some 255 \<and>
   emit_hex ''modem_lac'' ''+ff'' labels_ok = [Metric ''modem_lac'' 255 labels_ok] \<and>
   signed_hex ''0x1F'' = None \<and> filter emitted (emit_hex ''modem_tac'' ''0x1F'' labels_ok) = [] \<and>
   emit_hex ''modem_tac'' ''0x1F'' labels_ok = [Log [EN ErrSyntax]] \<and>
   signed_hex [] = None \<and> filter emitted (emit_hex ''modem_tac'' [] labels_ok) = [] \<and>
   emit_hex ''modem_tac'' [] labels_ok = [Log [EN ErrSyntax]] \<and>
   signed_hex ''+8000000000000000'' = None \<and>
   emit_hex ''modem_tac'' ''+8000000000000000'' labels_ok = [Log [EN ErrRange]]"
proof -
  have f: "float64_of_int64 6699 = 6699" "float64_of_int64 255 = 255"
    by (simp_all add: float64_of_int64_def round53_def)
  have g: "emit_hex ''modem_tac'' ''0x1F'' labels_ok \<noteq> [Log [EN ErrRange]]"
    "emit_hex ''modem_tac'' [] labels_ok \<noteq> [Log [EN ErrRange]]"
    "emit_hex ''modem_tac'' ''+8000000000000000'' labels_ok \<noteq> [Log [EN ErrSyntax]]"
    by (simp_all add: emit_hex_def parse_defs)
  from f g hex_examples hex_examples_signed
    hex_decode [of "''1A2B''" "''modem_cellid''" labels_ok 6699]
    hex_decode [of "''8000000000000000''" "''modem_cellid''" labels_ok 0]
    hex_decode [of "''+ff''" "''modem_lac''" labels_ok 255]
    hex_decode [of "''0x1F''" "''modem_tac''" labels_ok 0]
    hex_decode [of "[]" "''modem_tac''" labels_ok 0]
    hex_decode [of "''+8000000000000000''" "''modem_tac''" labels_ok 0]
  show ?thesis by simp
qed

text \<open>
  The claim as it stands fails in three ways: sixteen hexadecimal digits with the value
  \<open>2^63\<close> give no sample; \<open>-1F\<close>, which is no string of hexadecimal digits, gives the
  sample -31; and the digits of \<open>2^53 + 1\<close> give the sample \<open>2^53\<close>.
\<close>

theorem hex_decode_counterexample:
  "valid_hex ''8000000000000000'' \<and> hex_value ''8000000000000000'' = 2 ^ 63 \<and>
   emit_hex ''modem_cellid'' ''8000000000000000'' labels_ok = [Log [EN ErrRange]] \<and>
   \<not> valid_hex ''-1F'' \<and>
   emit_hex ''modem_cellid'' ''-1F'' labels_ok = [Metric ''modem_cellid'' (- 31) labels_ok] \<and>
   valid_hex ''20000000000001'' \<and> hex_value ''20000000000001'' = 2 ^ 53 + 1 \<and>
   emit_hex ''modem_cellid'' ''20000000000001'' labels_ok =
     [Metric ''modem_cellid'' (2 ^ 53) labels_ok]"
proof -
  have a: "emit_hex ''modem_cellid'' ''8000000000000000'' labels_ok = [Log [EN ErrRange]]"
    by (simp add: emit_hex_def parse_defs)
  have b: "emit_hex ''modem_cellid'' ''-1F'' labels_ok = [Metric ''modem_cellid'' (- 31) labels_ok]"
    by (simp add: emit_hex_def parse_defs)
  have c: "emit_hex ''modem_cellid'' ''20000000000001'' labels_ok =
     [Metric ''modem_cellid'' (2 ^ 53) labels_ok]"
    by (simp add: emit_hex_def parse_defs bitlen.simps)
  from a b c hex_examples show ?thesis by simp
qed

text \<open>
  C3. Whatever the operational state, a modem that is reported connected is reported
  registered. Pull emitter: a \<open>connected\<close> sample of value 1 among the samples of a modem
  comes with a \<open>registered\<close> sample of value 1 with the same labels (the comparisons are
  against the names \<open>"Registered"\<close> and \<open>"Connected"\<close>). Push emitter: every status
  line of a modem with \<open>connected=true\<close> has \<open>registered=true\<close> (the comparisons are
  \<open>state >= Registered\<close> and \<open>state == Connected\<close>).
\<close>

theorem connected_implies_registered:
  "(Metric ''modem_connected'' 1 l \<in> set (collect_modem apn pf m) \<longrightarrow>
      Metric ''modem_registered'' 1 l \<in> set (collect_modem apn pf m)) \<and>
   (Write (ModemStatus tags st ts) \<in> set (influx_modem m) \<longrightarrow>
      st_connected st \<longrightarrow> st_registered st)"
proof (intro conjI impI)
  assume "Metric ''modem_connected'' 1 l \<in> set (collect_modem apn pf m)"
  then show "Metric ''modem_registered'' 1 l \<in> set (collect_modem apn pf m)"
    by (rule collect_modem_connected)
next
  assume "Write (ModemStatus tags st ts) \<in> set (influx_modem m)" and c: "st_connected st"
  then have "st = status_of m (fst (Get3gpp m))"
    using status_in_influx_modem by blast
  with c show "st_registered st"
    using status_of_connected by blast
qed

theorem connected_implies_registered_witness:
  "Metric ''modem_connected'' 1 labels_ok \<in> set (collect_modem [] parse_digits modem_ok) \<and>
   Metric ''modem_registered'' 1 labels_ok \<in> set (collect_modem [] parse_digits modem_ok) \<and>
   Write (ModemStatus (push_tags modem_ok) (status_of modem_ok modem3gpp_ok) 1700000000)
     \<in> set (influx_modem modem_ok) \<and>
   st_connected (status_of modem_ok modem3gpp_ok) \<and>
   st_registered (status_of modem_ok modem3gpp_ok)"
proof -
  have a: "Metric ''modem_connected'' 1 labels_ok \<in> set (collect_modem [] parse_digits modem_ok)"
    by (simp add: pull_defs parse_defs example_defs)
  have b: "Write (ModemStatus (push_tags modem_ok) (status_of modem_ok modem3gpp_ok) 1700000000)
     \<in> set (influx_modem modem_ok)"
    by (simp add: push_defs parse_defs example_defs)
  have c: "st_connected (status_of modem_ok modem3gpp_ok)"
    by (simp add: push_defs example_defs)
  from a b c
    connected_implies_registered [of labels_ok "[]" parse_digits modem_ok "push_tags modem_ok"
      "status_of modem_ok modem3gpp_ok" 1700000000]
  show ?thesis by blast
qed

text \<open>
  C4 (as amended). The roaming value comes from the registration state and the
  registered value from the operational state, two separate reads. So, in one pass for
  one modem, when roaming is reported true, registered is reported true exactly when the
  operational state that was read is \<open>Registered\<close> or \<open>Connected\<close> (pull emitter, where
  it is the second read of the state), respectively could be read and is at or above
  \<open>Registered\<close> in the order of the states (push emitter).
\<close>

theorem roaming_and_registered:
  "(Metric ''modem_roaming'' 1 l \<in> set (collect_modem apn pf m) \<longrightarrow>
      ((\<exists>l'. Metric ''modem_registered'' 1 l' \<in> set (collect_modem apn pf m)) \<longleftrightarrow>
       state_String (fst (GetState m 1)) = ''Registered'' \<or>
       state_String (fst (GetState m 1)) = ''Connected'')) \<and>
   (Write (ModemStatus tags st ts) \<in> set (influx_modem m) \<longrightarrow> st_roaming st \<longrightarrow>
      (st_registered st \<longleftrightarrow>
       snd (GetState m 0) = None \<and>
       state_num MmModemStateRegistered \<le> state_num (fst (GetState m 0))))"
proof (intro conjI impI)
  assume "Metric ''modem_roaming'' 1 l \<in> set (collect_modem apn pf m)"
  from roaming_sample_reread[OF this]
  have s: "snd (GetState m 1) = None"
    and c: "collect_modem apn pf m =
      enable_events m @ collect_state apn pf m (fst (Get3gpp m)) (labels m)"
    by simp_all
  have "Metric ''modem_registered'' 1 l' \<notin> set (enable_events m)" for l'
    by (simp add: enable_events_def)
  with c show "(\<exists>l'. Metric ''modem_registered'' 1 l' \<in> set (collect_modem apn pf m)) \<longleftrightarrow>
       state_String (fst (GetState m 1)) = ''Registered'' \<or>
       state_String (fst (GetState m 1)) = ''Connected''"
    by (simp add: collect_state_registered[OF s])
next
  assume "Write (ModemStatus tags st ts) \<in> set (influx_modem m)"
  then have "st = status_of m (fst (Get3gpp m))"
    using status_in_influx_modem by blast
  then show "st_registered st \<longleftrightarrow>
       snd (GetState m 0) = None \<and>
       state_num MmModemStateRegistered \<le> state_num (fst (GetState m 0))"
    by (simp add: status_of_registered)
qed

theorem roaming_and_registered_witness:
  "Metric ''modem_roaming'' 1 labels_ok
     \<in> set (collect_modem [] parse_digits modem_roaming_registered) \<and>
   Metric ''modem_registered'' 1 labels_ok
     \<in> set (collect_modem [] parse_digits modem_roaming_registered) \<and>
   state_String (fst (GetState modem_roaming_registered 1)) = ''Registered'' \<and>
   Write (ModemStatus (push_tags modem_roaming_registered)
      (status_of modem_roaming_registered (fst (Get3gpp modem_roaming_registered)))
      1700000000) \<in> set (influx_modem modem_roaming_registered) \<and>
   st_roaming (status_of modem_roaming_registered (fst (Get3gpp modem_roaming_registered))) \<and>
   st_registered (status_of modem_roaming_registered (fst (Get3gpp modem_roaming_registered)))"
proof -
  have a: "Metric ''modem_roaming'' 1 labels_ok
     \<in> set (collect_modem [] parse_digits modem_roaming_registered)"
    by (simp add: modem_roaming_registered_def pull_defs parse_defs example_defs)
  have b: "state_String (fst (GetState modem_roaming_registered 1)) = ''Registered''"
    "snd (GetState modem_roaming_registered 0) = None"
    "state_num (fst (GetState modem_roaming_registered 0)) = 8"
    by (simp_all add: modem_roaming_registered_def example_defs)
  have c: "Write (ModemStatus (push_tags modem_roaming_registered)
      (status_of modem_roaming_registered (fst (Get3gpp modem_roaming_registered)))
      1700000000) \<in> set (influx_modem modem_roaming_registered)"
    by (simp add: modem_roaming_registered_def push_defs parse_defs example_defs)
  have d: "st_roaming (status_of modem_roaming_registered
      (fst (Get3gpp modem_roaming_registered)))"
    by (simp add: modem_roaming_registered_def push_defs example_defs)
  have e: "Metric ''modem_registered'' 1 labels_ok
     \<in> set (collect_modem [] parse_digits modem_roaming_registered)"
    by (simp add: modem_roaming_registered_def pull_defs parse_defs example_defs)
  from a b c d e
    roaming_and_registered [of labels_ok "[]" parse_digits modem_roaming_registered
      "push_tags modem_roaming_registered"
      "status_of modem_roaming_registered (fst (Get3gpp modem_roaming_registered))" 1700000000]
  show ?thesis by simp
qed

text \<open>
  The claim as it stands fails. Pull emitter: a roaming modem that is setting up its
  connection (state \<open>Connecting\<close>) is reported with roaming 1 and registered 0. Push
  emitter: a roaming modem that is still searching is reported with \<open>roaming=true\<close> and
  \<open>registered=false\<close>.
\<close>

theorem roaming_and_registered_counterexample:
  "filter (named ''modem_roaming'') (collect_modem [] parse_digits modem_roaming_connecting) =
     [Metric ''modem_roaming'' 1 labels_ok] \<and>
   filter (named ''modem_registered'') (collect_modem [] parse_digits modem_roaming_connecting) =
     [Metric ''modem_registered'' 0 labels_ok] \<and>
   filter is_status (influx_modem modem_roaming_searching) =
     [Write (ModemStatus
        \<lparr>tag_imei = ''3520'', tag_icc = ''8949'', tag_imsi = ''26201'',
         tag_operatorid = ''26201'', tag_operator = ''Telekom'',
         tag_v_operator = ''Telekom.de'', tag_mcc = ''262'', tag_mnc = ''01'',
         tag_rat = ''lte'', tag_phone_number = ''+491''\<rparr>
        \<lparr>st_power_state = ''On'', st_cellid = ''1A2B'', st_lac = ''00ff'', st_tac = ''10'',
         st_registered = False, st_connected = False, st_state = ''Searching'',
         st_operatorcode = 26201, st_roaming = True, st_regstate = ''Roaming'',
         st_signal_quality = 80, st_signal_quality_recent = True, st_message_count = 1\<rparr>
        1700000000)]"
  by (simp add: modem_roaming_connecting_def modem_roaming_searching_def pull_defs push_defs
        parse_defs example_defs)

text \<open>
  C5 (as amended). Pull emitter: when the read of an optional field fails, its sample is
  left out, and with it every sample the pass has not yet sent for that modem: after a
  failed second read of the state no sample at all is sent; after a failed read of the
  location only \<open>registered\<close> and \<open>connected\<close>; after a failed read of the registration
  state also the cell samples; after a failed read of the operator code also \<open>roaming\<close>.
  An operator code that is read but is not a number is left out without a log line, and
  the pass goes on with the signal. Push emitter: nothing is left out. Once the modem is
  identified the status line is written, with \<open>"unknown"\<close> for a state or a registration
  state that cannot be read and \<open>false\<close> for the values derived from it, with 0 for an
  operator code that cannot be read, is empty or is not a number (the last is logged),
  and with empty strings for a location that cannot be read.
\<close>

theorem optional_read_failures:
  "(snd (GetState m 1) \<noteq> None \<longrightarrow> filter emitted (collect_modem apn pf m) = []) \<and>
   (snd (GetLocation m) \<noteq> None \<or> snd (GetCurrentLocation (fst (GetLocation m))) \<noteq> None \<longrightarrow>
      list_all (named_in state_names) (collect_modem apn pf m)) \<and>
   (snd (GetRegistrationState (fst (Get3gpp m))) \<noteq> None \<longrightarrow>
      list_all (named_in cell_names) (collect_modem apn pf m)) \<and>
   (snd (GetOperatorCode (fst (Get3gpp m))) \<noteq> None \<longrightarrow>
      list_all (named_in roaming_names) (collect_modem apn pf m)) \<and>
   (snd (GetOperatorCode m3) = None \<and> snd (pf (fst (GetOperatorCode m3))) \<noteq> None \<longrightarrow>
      collect_opcode pf m m3 lbl = collect_signal m lbl) \<and>
   (push_ok m \<longrightarrow>
      Write (ModemStatus (push_tags m) (status_of m (fst (Get3gpp m))) (now m))
        \<in> set (influx_modem m)) \<and>
   (snd (GetState m 0) \<noteq> None \<longrightarrow>
      st_state (status_of m m3) = ''unknown'' \<and> \<not> st_registered (status_of m m3) \<and>
      \<not> st_connected (status_of m m3)) \<and>
   (snd (GetRegistrationState m3) \<noteq> None \<longrightarrow>
      st_regstate (status_of m m3) = ''unknown'' \<and> \<not> st_roaming (status_of m m3)) \<and>
   (snd (GetOperatorCode m3) \<noteq> None \<longrightarrow> st_operatorcode (status_of m m3) = 0) \<and>
   (snd (GetOperatorCode m3) = None \<and> fst (GetOperatorCode m3) \<noteq> [] \<and>
    snd (ParseInt (fst (GetOperatorCode m3)) 10 32) = Some err \<longrightarrow>
      st_operatorcode (status_of m m3) = 0 \<and>
      fst (read_opcode m3) = [Log [S ''error parsing operator code:'', EN err]]) \<and>
   (snd (GetLocation m) \<noteq> None \<or> snd (GetCurrentLocation (fst (GetLocation m))) \<noteq> None \<longrightarrow>
      st_cellid (status_of m m3) = [] \<and> st_lac (status_of m m3) = [] \<and>
      st_tac (status_of m m3) = []) \<and>
   (snd (GetOperatorCode m3) = None \<and> fst (GetOperatorCode m3) = [] \<longrightarrow>
      st_operatorcode (status_of m m3) = 0 \<and> fst (read_opcode m3) = []) \<and>
   (push_ok m \<and> snd (GetOperatorCode (fst (Get3gpp m))) = None \<and>
    fst (GetOperatorCode (fst (Get3gpp m))) \<noteq> [] \<and>
    snd (ParseInt (fst (GetOperatorCode (fst (Get3gpp m)))) 10 32) = Some err \<longrightarrow>
      Log [S ''error parsing operator code:'', EN err] \<in> set (influx_modem m))"
proof -
  have p1: "filter emitted (collect_modem apn pf m) = []" if "snd (GetState m 1) \<noteq> None"
    by (intro named_in_empty_not_emitted collect_modem_with log_named_in
          collect_state_failed that)
  have p2: "list_all (named_in state_names) (collect_modem apn pf m)"
    if "snd (GetLocation m) \<noteq> None \<or> snd (GetCurrentLocation (fst (GetLocation m))) \<noteq> None"
    by (intro collect_modem_with collect_state_with log_named_in
          collect_location_unread that) simp
  have s1: "state_names \<subseteq> cell_names"
    and s2: "{''modem_cellid'', ''modem_lac'', ''modem_tac''} \<subseteq> cell_names"
    and s3: "state_names \<subseteq> roaming_names"
    and s4: "{''modem_cellid'', ''modem_lac'', ''modem_tac''} \<subseteq> roaming_names"
    and s5: "{''modem_roaming''} \<subseteq> roaming_names"
    by (auto simp add: cell_names_def roaming_names_def)
  have p3: "list_all (named_in cell_names) (collect_modem apn pf m)"
    if u: "snd (GetRegistrationState (fst (Get3gpp m))) \<noteq> None"
  proof -
    have "list_all (named_in cell_names) (collect_roaming pf m (fst (Get3gpp m)) (labels m))"
      by (rule log_named_in[OF collect_roaming_unread[OF u]])
    from collect_location_with[OF this s2] show ?thesis
      by (intro collect_modem_with collect_state_with s1)
  qed
  have p4: "list_all (named_in roaming_names) (collect_modem apn pf m)"
    if u: "snd (GetOperatorCode (fst (Get3gpp m))) \<noteq> None"
  proof -
    have "list_all (named_in roaming_names)
            (collect_roaming pf m (fst (Get3gpp m)) (labels m))"
      by (rule list_all_named_in_mono[OF collect_roaming_opcode_unread[OF u] s5])
    from collect_location_with[OF this s4] show ?thesis
      by (intro collect_modem_with collect_state_with s3)
  qed
  have p5: "collect_opcode pf m m3 lbl = collect_signal m lbl"
    if "snd (GetOperatorCode m3) = None \<and> snd (pf (fst (GetOperatorCode m3))) \<noteq> None"
    using that by (simp add: collect_opcode_not_a_number)
  have q5: "st_operatorcode (status_of m m3) = 0 \<and>
      fst (read_opcode m3) = [Log [S ''error parsing operator code:'', EN err]]"
    if "snd (GetOperatorCode m3) = None \<and> fst (GetOperatorCode m3) \<noteq> [] \<and>
        snd (ParseInt (fst (GetOperatorCode m3)) 10 32) = Some err"
    using that by (simp add: status_of_def read_opcode_not_a_number)
  have c1: "(snd (GetState m 1) \<noteq> None \<longrightarrow> filter emitted (collect_modem apn pf m) = [])"
    using p1 by blast
  have c2: "(snd (GetLocation m) \<noteq> None \<or> snd (GetCurrentLocation (fst (GetLocation m))) \<noteq> None \<longrightarrow>
      list_all (named_in state_names) (collect_modem apn pf m))"
    using p2 by blast
  have c3: "(snd (GetRegistrationState (fst (Get3gpp m))) \<noteq> None \<longrightarrow>
      list_all (named_in cell_names) (collect_modem apn pf m))"
    using p3 by blast
  have c4: "(snd (GetOperatorCode (fst (Get3gpp m))) \<noteq> None \<longrightarrow>
      list_all (named_in roaming_names) (collect_modem apn pf m))"
    using p4 by blast
  have c5: "(snd (GetOperatorCode m3) = None \<and> snd (pf (fst (GetOperatorCode m3))) \<noteq> None \<longrightarrow>
      collect_opcode pf m m3 lbl = collect_signal m lbl)"
    using p5 by blast
  have c6: "(push_ok m \<longrightarrow>
      Write (ModemStatus (push_tags m) (status_of m (fst (Get3gpp m))) (now m))
        \<in> set (influx_modem m))"
    using status_line_written[of m] by blast
  have c7: "(snd (GetState m 0) \<noteq> None \<longrightarrow>
      st_state (status_of m m3) = ''unknown'' \<and> \<not> st_registered (status_of m m3) \<and>
      \<not> st_connected (status_of m m3))"
    using status_of_unread[of m m3] by blast
  have c8: "(snd (GetRegistrationState m3) \<noteq> None \<longrightarrow>
      st_regstate (status_of m m3) = ''unknown'' \<and> \<not> st_roaming (status_of m m3))"
    using status_of_unread[of m m3] by blast
  have c9: "(snd (GetOperatorCode m3) \<noteq> None \<longrightarrow> st_operatorcode (status_of m m3) = 0)"
    using status_of_unread[of m m3] by blast
  have c10: "(snd (GetOperatorCode m3) = None \<and> fst (GetOperatorCode m3) \<noteq> [] \<and>
    snd (ParseInt (fst (GetOperatorCode m3)) 10 32) = Some err \<longrightarrow>
      st_operatorcode (status_of m m3) = 0 \<and>
      fst (read_opcode m3) = [Log [S ''error parsing operator code:'', EN err]])"
    using q5 by blast
  have c11: "(snd (GetLocation m) \<noteq> None \<or> snd (GetCurrentLocation (fst (GetLocation m))) \<noteq> None \<longrightarrow>
      st_cellid (status_of m m3) = [] \<and> st_lac (status_of m m3) = [] \<and>
      st_tac (status_of m m3) = [])"
    using status_of_unread[of m m3] by blast
  have c12: "snd (GetOperatorCode m3) = None \<and> fst (GetOperatorCode m3) = [] \<longrightarrow>
      st_operatorcode (status_of m m3) = 0 \<and> fst (read_opcode m3) = []"
    by (simp add: status_of_def read_opcode_def case_prod_beta)
  have c13: "push_ok m \<and> snd (GetOperatorCode (fst (Get3gpp m))) = None \<and>
    fst (GetOperatorCode (fst (Get3gpp m))) \<noteq> [] \<and>
    snd (ParseInt (fst (GetOperatorCode (fst (Get3gpp m)))) 10 32) = Some err \<longrightarrow>
      Log [S ''error parsing operator code:'', EN err] \<in> set (influx_modem m)"
    using opcode_log_in_influx_modem read_opcode_not_a_number[of "fst (Get3gpp m)" err]
    by simp
  show ?thesis
    by (intro conjI c1 c2 c3 c4 c5 c6 c7 c8 c9 c10 c11 c12 c13)
qed

theorem optional_read_failures_witness:
  "GetState modem_reread_fails 0 = (MmModemStateConnected, None) \<and>
   snd (GetState modem_reread_fails 1) = Some ''timeout'' \<and>
   collect_modem [] parse_digits modem_reread_fails =
     [Log [S ''cannot get modem state:timeout'']] \<and>
   filter emitted (collect_modem [] parse_digits modem_reread_fails) = [] \<and>
   snd (GetLocation modem_no_location) = Some ''timeout'' \<and>
   filter emitted (collect_modem [] parse_digits modem_no_location) =
     [Metric ''modem_registered'' 1 labels_ok, Metric ''modem_connected'' 1 labels_ok] \<and>
   list_all (named_in state_names) (collect_modem [] parse_digits modem_no_location) \<and>
   snd (GetRegistrationState (fst (Get3gpp modem_no_regstate))) = Some ''timeout'' \<and>
   filter emitted (collect_modem [] parse_digits modem_no_regstate) =
     [Metric ''modem_registered'' 1 labels_ok, Metric ''modem_connected'' 1 labels_ok,
      Metric ''modem_cellid'' 6699 labels_ok, Metric ''modem_lac'' 255 labels_ok,
      Metric ''modem_tac'' 16 labels_ok] \<and>
   list_all (named_in cell_names) (collect_modem [] parse_digits modem_no_regstate) \<and>
   snd (GetOperatorCode (fst (Get3gpp modem_no_opcode))) = Some ''timeout'' \<and>
   filter emitted (collect_modem [] parse_digits modem_no_opcode) =
     [Metric ''modem_registered'' 1 labels_ok, Metric ''modem_connected'' 1 labels_ok,
      Metric ''modem_cellid'' 6699 labels_ok, Metric ''modem_lac'' 255 labels_ok,
      Metric ''modem_tac'' 16 labels_ok, Metric ''modem_roaming'' 0 labels_ok] \<and>
   list_all (named_in roaming_names) (collect_modem [] parse_digits modem_no_opcode) \<and>
   GetOperatorCode (fst (Get3gpp modem_opcode_letters)) = (''abc'', None) \<and>
   snd (parse_digits ''abc'') = Some ''invalid syntax'' \<and>
   collect_opcode parse_digits modem_opcode_letters (fst (Get3gpp modem_opcode_letters))
       labels_ok = collect_signal modem_opcode_letters labels_ok \<and>
   push_ok modem_unreadable \<and>
   Write (ModemStatus (push_tags modem_unreadable)
      (status_of modem_unreadable (fst (Get3gpp modem_unreadable))) (now modem_unreadable))
        \<in> set (influx_modem modem_unreadable) \<and>
   st_state (status_of modem_unreadable (fst (Get3gpp modem_unreadable))) = ''unknown'' \<and>
   st_regstate (status_of modem_unreadable (fst (Get3gpp modem_unreadable))) = ''unknown'' \<and>
   st_operatorcode (status_of modem_unreadable (fst (Get3gpp modem_unreadable))) = 0 \<and>
   st_cellid (status_of modem_unreadable (fst (Get3gpp modem_unreadable))) = [] \<and>
   snd (ParseInt ''abc'' 10 32) = Some ErrSyntax \<and>
   st_operatorcode (status_of modem_opcode_letters (fst (Get3gpp modem_opcode_letters))) = 0 \<and>
   fst (read_opcode (fst (Get3gpp modem_opcode_letters))) =
     [Log [S ''error parsing operator code:'', EN ErrSyntax]] \<and>
   push_ok modem_opcode_letters \<and>
   Log [S ''error parsing operator code:'', EN ErrSyntax]
     \<in> set (influx_modem modem_opcode_letters) \<and>
   GetOperatorCode (fst (Get3gpp modem_opcode_empty)) = ([], None) \<and>
   st_operatorcode (status_of modem_opcode_empty (fst (Get3gpp modem_opcode_empty))) = 0 \<and>
   fst (read_opcode (fst (Get3gpp modem_opcode_empty))) = []"
proof -
  have a: "snd (GetState modem_unreadable 0) = Some ''timeout''"
    "snd (GetLocation modem_unreadable) = Some ''timeout''"
    "snd (GetRegistrationState (fst (Get3gpp modem_unreadable))) = Some ''timeout''"
    "snd (GetOperatorCode (fst (Get3gpp modem_unreadable))) = Some ''timeout''"
    "push_ok modem_unreadable"
    by (simp_all add: modem_unreadable_def push_ok_def example_defs)
  have b: "GetOperatorCode (fst (Get3gpp modem_opcode_letters)) = (''abc'', None)"
    "push_ok modem_opcode_letters"
    "GetOperatorCode (fst (Get3gpp modem_opcode_empty)) = ([], None)"
    by (simp_all add: modem_opcode_letters_def modem_opcode_empty_def push_ok_def example_defs)
  have c: "snd (ParseInt ''abc'' 10 32) = Some ErrSyntax"
    "snd (parse_digits ''abc'') = Some ''invalid syntax''"
    by (simp_all add: parse_defs parse_digits_def)
  have d: "GetState modem_reread_fails 0 = (MmModemStateConnected, None)"
    "snd (GetState modem_reread_fails 1) = Some ''timeout''"
    "snd (GetLocation modem_no_location) = Some ''timeout''"
    "snd (GetRegistrationState (fst (Get3gpp modem_no_regstate))) = Some ''timeout''"
    "snd (GetOperatorCode (fst (Get3gpp modem_no_opcode))) = Some ''timeout''"
    by (simp_all add: modem_reread_fails_def modem_no_location_def modem_no_regstate_def
          modem_no_opcode_def example_defs)
  have e1: "collect_modem [] parse_digits modem_reread_fails =
     [Log [S ''cannot get modem state:timeout'']]"
    by (simp add: modem_reread_fails_def pull_defs parse_defs example_defs)
  have e2: "filter emitted (collect_modem [] parse_digits modem_no_location) =
     [Metric ''modem_registered'' 1 labels_ok, Metric ''modem_connected'' 1 labels_ok]"
    by (simp add: modem_no_location_def pull_defs parse_defs example_defs)
  have e3: "filter emitted (collect_modem [] parse_digits modem_no_regstate) =
     [Metric ''modem_registered'' 1 labels_ok, Metric ''modem_connected'' 1 labels_ok,
      Metric ''modem_cellid'' 6699 labels_ok, Metric ''modem_lac'' 255 labels_ok,
      Metric ''modem_tac'' 16 labels_ok]"
    by (simp add: modem_no_regstate_def pull_defs parse_defs example_defs)
  have e4: "filter emitted (collect_modem [] parse_digits modem_no_opcode) =
     [Metric ''modem_registered'' 1 labels_ok, Metric ''modem_connected'' 1 labels_ok,
      Metric ''modem_cellid'' 6699 labels_ok, Metric ''modem_lac'' 255 labels_ok,
      Metric ''modem_tac'' 16 labels_ok, Metric ''modem_roaming'' 0 labels_ok]"
    by (simp add: modem_no_opcode_def pull_defs parse_defs example_defs)
  from a b c d e1 e2 e3 e4
    optional_read_failures [of modem_reread_fails "[]" parse_digits
      "fst (Get3gpp modem_reread_fails)" labels_ok ErrSyntax]
    optional_read_failures [of modem_no_location "[]" parse_digits
      "fst (Get3gpp modem_no_location)" labels_ok ErrSyntax]
    optional_read_failures [of modem_no_regstate "[]" parse_digits
      "fst (Get3gpp modem_no_regstate)" labels_ok ErrSyntax]
    optional_read_failures [of modem_no_opcode "[]" parse_digits
      "fst (Get3gpp modem_no_opcode)" labels_ok ErrSyntax]
    optional_read_failures [of modem_unreadable "[]" parse_digits
      "fst (Get3gpp modem_unreadable)" labels_ok ErrSyntax]
    optional_read_failures [of modem_opcode_letters "[]" parse_digits
      "fst (Get3gpp modem_opcode_letters)" labels_ok ErrSyntax]
    optional_read_failures [of modem_opcode_empty "[]" parse_digits
      "fst (Get3gpp modem_opcode_empty)" labels_ok ErrSyntax]
  show ?thesis by simp
qed

text \<open>
  The claim as it stands fails on the push emitter: the state, the registration state,
  the operator code and the location of the modem cannot be read, and its status line
  carries \<open>"unknown"\<close>, \<open>false\<close>, 0 and empty strings in their place.
\<close>

theorem optional_read_failures_counterexample:
  "snd (GetState modem_unreadable 0) = Some ''timeout'' \<and>
   snd (GetOperatorCode (fst (Get3gpp modem_unreadable))) = Some ''timeout'' \<and>
   filter is_status (influx_modem modem_unreadable) =
     [Write (ModemStatus
        \<lparr>tag_imei = ''3520'', tag_icc = ''8949'', tag_imsi = ''26201'',
         tag_operatorid = ''26201'', tag_operator = ''Telekom'',
         tag_v_operator = ''Telekom.de'', tag_mcc = ''262'', tag_mnc = ''01'',
         tag_rat = ''lte'', tag_phone_number = ''+491''\<rparr>
        \<lparr>st_power_state = ''On'', st_cellid = [], st_lac = [], st_tac = [],
         st_registered = False, st_connected = False, st_state = ''unknown'',
         st_operatorcode = 0, st_roaming = False, st_regstate = ''unknown'',
         st_signal_quality = 80, st_signal_quality_recent = True, st_message_count = 1\<rparr>
        1700000000)]"
  by (simp add: modem_unreadable_def push_defs parse_defs example_defs)

text \<open>
  C6 (as amended). In the pull emitter a call on a bearer (disconnect, delete, connect)
  is made only if the second read of the operational state gives \<open>Registered\<close> and the
  configured APN is not empty. When that is so for a modem whose identity was read, each
  existing bearer is disconnected and then deleted, in turn and whether or not a deletion
  fails; then one connect with the configured APN is made, provided the handle of the
  simple interface can be obtained (if it cannot, the failure is logged and no connect is
  made). Whatever the deletions and the connect answer, the \<open>registered\<close> sample (1) and
  the \<open>connected\<close> sample (0) are sent, from the state read before these calls.
\<close>

theorem bearer_reconciliation:
  "(bearer_ops (collect_modem apn pf m) \<noteq> [] \<longrightarrow>
      snd (GetState m 1) = None \<and> state_String (fst (GetState m 1)) = ''Registered'' \<and>
      apn \<noteq> []) \<and>
   (enable_ok m \<and> identity_ok m \<and> snd (GetState m 1) = None \<and>
    state_String (fst (GetState m 1)) = ''Registered'' \<and> apn \<noteq> [] \<longrightarrow>
      bearer_ops (collect_modem apn pf m) =
        clear_calls (fst (GetBearers m)) @
        (if snd (GetSimpleModem m) = None then [CallConnect apn] else []) \<and>
      Metric ''modem_registered'' 1 (labels m) \<in> set (collect_modem apn pf m) \<and>
      Metric ''modem_connected'' 0 (labels m) \<in> set (collect_modem apn pf m)) \<and>
   (enable_ok m \<and> identity_ok m \<and> snd (GetState m 1) = None \<and>
    state_String (fst (GetState m 1)) = ''Registered'' \<and> apn \<noteq> [] \<and>
    snd (GetSimpleModem m) = Some err \<longrightarrow>
      Log [E (Some err)] \<in> set (collect_modem apn pf m))"
proof (intro conjI impI)
  assume ops: "bearer_ops (collect_modem apn pf m) \<noteq> []"
  then have ok: "enable_ok m \<and> identity_ok m \<and> snd (GetState m 1) = None"
    using collect_modem_no_bearer_ops by blast
  then show "snd (GetState m 1) = None" by simp
  from ok ops show "state_String (fst (GetState m 1)) = ''Registered''"
    by (simp add: collect_modem_bearer_ops split: if_splits)
  from ok ops show "apn \<noteq> []"
    by (simp add: collect_modem_bearer_ops split: if_splits)
next
  assume h: "enable_ok m \<and> identity_ok m \<and> snd (GetState m 1) = None \<and>
    state_String (fst (GetState m 1)) = ''Registered'' \<and> apn \<noteq> []"
  then show "bearer_ops (collect_modem apn pf m) =
        clear_calls (fst (GetBearers m)) @
        (if snd (GetSimpleModem m) = None then [CallConnect apn] else [])"
    by (simp add: collect_modem_bearer_ops)
  from h collect_state_samples[where m=m and apn=apn and pf=pf and ?m3.0="fst (Get3gpp m)"
      and lbl="labels m"]
  show "Metric ''modem_registered'' 1 (labels m) \<in> set (collect_modem apn pf m)"
    by (simp add: collect_modem_ok collect_identity_ok)
  from h collect_state_samples[where m=m and apn=apn and pf=pf and ?m3.0="fst (Get3gpp m)"
      and lbl="labels m"]
  show "Metric ''modem_connected'' 0 (labels m) \<in> set (collect_modem apn pf m)"
    by (simp add: collect_modem_ok collect_identity_ok)
next
  assume "enable_ok m \<and> identity_ok m \<and> snd (GetState m 1) = None \<and>
    state_String (fst (GetState m 1)) = ''Registered'' \<and> apn \<noteq> [] \<and>
    snd (GetSimpleModem m) = Some err"
  then show "Log [E (Some err)] \<in> set (collect_modem apn pf m)"
    by (simp add: collect_modem_ok collect_identity_ok simple_modem_failure_logged)
qed

theorem bearer_reconciliation_witness:
  "enable_ok modem_registered_apn \<and> identity_ok modem_registered_apn \<and>
   snd (GetState modem_registered_apn 1) = None \<and>
   state_String (fst (GetState modem_registered_apn 1)) = ''Registered'' \<and>
   bearer_ops (collect_modem ''internet'' parse_digits modem_registered_apn) =
     [CallDisconnect ''/Bearer/0'', CallDeleteBearer ''/Bearer/0'',
      CallDisconnect ''/Bearer/1'', CallDeleteBearer ''/Bearer/1'', CallConnect ''internet''] \<and>
   Metric ''modem_registered'' 1 labels_ok
     \<in> set (collect_modem ''internet'' parse_digits modem_registered_apn) \<and>
   Metric ''modem_connected'' 0 labels_ok
     \<in> set (collect_modem ''internet'' parse_digits modem_registered_apn) \<and>
   enable_ok modem_registered_no_simple \<and> identity_ok modem_registered_no_simple \<and>
   snd (GetState modem_registered_no_simple 1) = None \<and>
   state_String (fst (GetState modem_registered_no_simple 1)) = ''Registered'' \<and>
   snd (GetSimpleModem modem_registered_no_simple) = Some ''no interface'' \<and>
   bearer_ops (collect_modem ''internet'' parse_digits modem_registered_no_simple) = [] \<and>
   Log [E (Some ''no interface'')]
     \<in> set (collect_modem ''internet'' parse_digits modem_registered_no_simple)"
proof -
  have a: "enable_ok modem_registered_apn" "identity_ok modem_registered_apn"
    "snd (GetState modem_registered_apn 1) = None"
    "state_String (fst (GetState modem_registered_apn 1)) = ''Registered''"
    by (simp_all add: enable_ok_def identity_ok_def modem_registered_apn_def example_defs)
  have b: "clear_calls (fst (GetBearers modem_registered_apn)) =
     [CallDisconnect ''/Bearer/0'', CallDeleteBearer ''/Bearer/0'',
      CallDisconnect ''/Bearer/1'', CallDeleteBearer ''/Bearer/1'']"
    "snd (GetSimpleModem modem_registered_apn) = None"
    by (simp_all add: clear_calls_def modem_registered_apn_def example_defs)
  have c: "labels modem_registered_apn = labels_ok"
    by (simp add: labels_def modem_registered_apn_def example_defs ToLower_def char_of_def bit_0)
  have d: "enable_ok modem_registered_no_simple" "identity_ok modem_registered_no_simple"
    "snd (GetState modem_registered_no_simple 1) = None"
    "state_String (fst (GetState modem_registered_no_simple 1)) = ''Registered''"
    "snd (GetSimpleModem modem_registered_no_simple) = Some ''no interface''"
    "clear_calls (fst (GetBearers modem_registered_no_simple)) = []"
    by (simp_all add: enable_ok_def identity_ok_def clear_calls_def
          modem_registered_no_simple_def example_defs)
  from a b c d
    bearer_reconciliation [of "''internet''" parse_digits modem_registered_apn "''x''"]
    bearer_reconciliation [of "''internet''" parse_digits modem_registered_no_simple
      "''no interface''"]
  show ?thesis by simp
qed

text \<open>
  The claim as it stands fails: the state is \<open>Registered\<close> and the APN is configured,
  but the handle of the simple interface cannot be obtained; the modem has no bearer. No
  call on a bearer is made at all, and no connect is attempted.
\<close>

theorem bearer_reconciliation_counterexample:
  "state_String (fst (GetState modem_registered_no_simple 1)) = ''Registered'' \<and>
   snd (GetState modem_registered_no_simple 1) = None \<and>
   calls_of (collect_modem ''internet'' parse_digits modem_registered_no_simple) =
     [CallSetup 1, CallSetup 0] \<and>
   filter is_log (reconcile ''internet'' modem_registered_no_simple) =
     [Log [E (Some ''no interface'')]]"
  by (simp add: modem_registered_no_simple_def pull_defs parse_defs example_defs)

text \<open>
  C7. The signal reporting is switched off again by \<open>Setup(0)\<close> once \<open>Setup(1)\<close> has
  succeeded. The push emitter makes the call whatever the reads of the GSM and LTE
  samples answer. The pull emitter makes it when the read of the samples succeeds, after
  all samples are sent, and only logs its failure; but when the read of the samples
  fails, the pull emitter leaves the loop body before the call, and \<open>Setup(0)\<close> is not
  made: there the code does not do what the property asks.
\<close>

theorem signal_teardown:
  "(snd (GetSignal m) = None \<and> Setup (fst (GetSignal m)) 1 = None \<longrightarrow>
      calls_of (influx_signal m tags ts) = [CallSetup 1, CallSetup 0]) \<and>
   (snd (GetSignal m) = None \<and> Setup (fst (GetSignal m)) 1 = None \<and>
    snd (GetCurrentSignals (fst (GetSignal m))) = None \<longrightarrow>
      collect_signal m lbl =
        Call (CallSetup 1) # Sleep 2000 #
        emit_signals (fst (GetCurrentSignals (fst (GetSignal m)))) lbl @
        Call (CallSetup 0) #
        (case Setup (fst (GetSignal m)) 0 of Some err \<Rightarrow> [Log [E (Some err)]] | None \<Rightarrow> [])) \<and>
   (snd (GetSignal m) = None \<and> Setup (fst (GetSignal m)) 1 = None \<and>
    snd (GetCurrentSignals (fst (GetSignal m))) \<noteq> None \<longrightarrow>
      calls_of (collect_signal m lbl) = [CallSetup 1])"
proof (intro conjI impI)
  assume "snd (GetSignal m) = None \<and> Setup (fst (GetSignal m)) 1 = None"
  then show "calls_of (influx_signal m tags ts) = [CallSetup 1, CallSetup 0]"
    by (simp add: influx_signal_def calls_of_append log_no_calls[OF soft_log]
          case_prod_beta option.case_eq_if)
next
  assume "snd (GetSignal m) = None \<and> Setup (fst (GetSignal m)) 1 = None \<and>
    snd (GetCurrentSignals (fst (GetSignal m))) = None"
  then show "collect_signal m lbl =
        Call (CallSetup 1) # Sleep 2000 #
        emit_signals (fst (GetCurrentSignals (fst (GetSignal m)))) lbl @
        Call (CallSetup 0) #
        (case Setup (fst (GetSignal m)) 0 of Some err \<Rightarrow> [Log [E (Some err)]] | None \<Rightarrow> [])"
    by (simp add: collect_signal_def case_prod_beta)
next
  assume "snd (GetSignal m) = None \<and> Setup (fst (GetSignal m)) 1 = None \<and>
    snd (GetCurrentSignals (fst (GetSignal m))) \<noteq> None"
  then show "calls_of (collect_signal m lbl) = [CallSetup 1]"
    by (auto simp add: collect_signal_def case_prod_beta option.case_eq_if)
qed

theorem signal_teardown_witness:
  "calls_of (influx_signal modem_signal_unreadable (push_tags modem_ok) 0) =
     [CallSetup 1, CallSetup 0] \<and>
   collect_signal modem_signal_stuck labels_ok =
     [Call (CallSetup 1), Sleep 2000,
      Metric ''modem_rssi'' (- 71) labels_ok, Metric ''modem_rsrp'' 0 labels_ok,
      Metric ''modem_rssi'' (- 65) labels_ok, Metric ''modem_rsrp'' (- 95) labels_ok,
      Call (CallSetup 0), Log [E (Some ''busy'')]] \<and>
   snd (GetCurrentSignals (fst (GetSignal modem_signal_unreadable))) = Some ''read failed'' \<and>
   calls_of (collect_signal modem_signal_unreadable labels_ok) = [CallSetup 1]"
proof -
  have a: "snd (GetSignal modem_signal_unreadable) = None"
    "Setup (fst (GetSignal modem_signal_unreadable)) 1 = None"
    "snd (GetCurrentSignals (fst (GetSignal modem_signal_unreadable))) = Some ''read failed''"
    by (simp_all add: modem_signal_unreadable_def signal_unreadable_def example_defs)
  have b: "snd (GetSignal modem_signal_stuck) = None"
    "Setup (fst (GetSignal modem_signal_stuck)) 1 = None"
    "Setup (fst (GetSignal modem_signal_stuck)) 0 = Some ''busy''"
    "GetCurrentSignals (fst (GetSignal modem_signal_stuck)) = ([sample_gsm, sample_lte], None)"
    by (simp_all add: modem_signal_stuck_def signal_stuck_def example_defs)
  have c: "Rssi sample_gsm = - 71" "Rsrp sample_gsm = 0" "Rssi sample_lte = - 65"
    "Rsrp sample_lte = - 95"
    by (simp_all add: example_defs)
  from a b c
    signal_teardown [of modem_signal_unreadable "push_tags modem_ok" 0 labels_ok]
    signal_teardown [of modem_signal_stuck "push_tags modem_ok" 0 labels_ok]
  show ?thesis by simp
qed

text \<open>
  C8. In the pull emitter the \<open>up\<close> gauge is sent exactly once, with value 1, whenever
  the list of modems could be read, whatever happens to the single modems afterwards;
  when the list cannot be read, no sample is sent at all, so \<open>up\<close> never has the value 0.
\<close>

theorem up_gauge:
  "(snd GetModems = None \<longrightarrow>
      filter is_up (Collect apn pf GetModems) = [Metric ''modem_up'' 1 []]) \<and>
   (snd GetModems \<noteq> None \<longrightarrow> filter emitted (Collect apn pf GetModems) = [])"
proof -
  have "filter is_up (collect_loop apn pf ms) = []" for ms
    by (rule named_in_not_up[OF collect_loop_named])
       (simp add: modem_names_def location_names_def signal_names_def)
  then show ?thesis
    by (auto simp add: Collect_def case_prod_beta)
qed

theorem up_gauge_witness:
  "filter is_up (Collect [] parse_digits ([modem_ok, modem_ok\<lparr>GetSim := (sim_ok, Some ''no sim'')\<rparr>], None))
     = [Metric ''modem_up'' 1 []] \<and>
   filter emitted (Collect [] parse_digits ([modem_ok], Some ''no bus'')) = []"
  using up_gauge [of "([modem_ok, modem_ok\<lparr>GetSim := (sim_ok, Some ''no sim'')\<rparr>], None)" "[]" parse_digits]
    up_gauge [of "([modem_ok], Some ''no bus'')" "[]" parse_digits]
  by simp

text \<open>
  C9. Pull emitter: a list of access technologies that has not exactly one entry skips
  the modem, no sample of it is sent. Push emitter, once the modem's handles, SIM
  identifier, IMSI and access technologies are read: with an empty list the \<open>rat\<close> tag is
  empty and the status line is written; with two entries or more the \<open>rat\<close> tag is the
  first entry in lower case, the other entries are logged as dropped, the status line is
  written, and the handler sets no error status.
\<close>

theorem access_technology_cardinality:
  "(length (fst (GetAccessTechnologies m)) \<noteq> 1 \<longrightarrow>
      filter emitted (collect_modem apn pf m) = []) \<and>
   (push_ok m \<and> fst (GetAccessTechnologies m) = [] \<longrightarrow>
      tag_rat (push_tags m) = [] \<and>
      Write (ModemStatus (push_tags m) (status_of m (fst (Get3gpp m))) (now m))
        \<in> set (influx_modem m)) \<and>
   (push_ok m \<and> length (fst (GetAccessTechnologies m)) \<ge> 2 \<longrightarrow>
      tag_rat (push_tags m) = ToLower (hd (fst (GetAccessTechnologies m))) \<and>
      Log [S ''multiple access technologies found, using first one. Dropped:'',
           L (tl (fst (GetAccessTechnologies m)))] \<in> set (influx_modem m) \<and>
      Write (ModemStatus (push_tags m) (status_of m (fst (Get3gpp m))) (now m))
        \<in> set (influx_modem m) \<and>
      filter is_header (influx_modem m) = [])"
proof (intro conjI impI)
  assume "length (fst (GetAccessTechnologies m)) \<noteq> 1"
  then have "\<not> identity_ok m"
    by (simp add: identity_ok_def)
  then show "filter emitted (collect_modem apn pf m) = []"
    by (rule collect_modem_silent)
next
  assume h: "push_ok m \<and> fst (GetAccessTechnologies m) = []"
  then show "tag_rat (push_tags m) = []"
    by (simp add: push_tags_def read_rat_def)
  from h show "Write (ModemStatus (push_tags m) (status_of m (fst (Get3gpp m))) (now m))
        \<in> set (influx_modem m)"
    by (simp add: status_line_written)
next
  assume h: "push_ok m \<and> length (fst (GetAccessTechnologies m)) \<ge> 2"
  then have "2 \<le> length (fst (GetAccessTechnologies m))"
    by simp
  then have l: "0 < length (fst (GetAccessTechnologies m))"
    "1 < length (fst (GetAccessTechnologies m))"
    by linarith+
  then show "tag_rat (push_tags m) = ToLower (hd (fst (GetAccessTechnologies m)))"
    by (simp add: push_tags_def read_rat_def)
  from l have "Log [S ''multiple access technologies found, using first one. Dropped:'',
           L (tl (fst (GetAccessTechnologies m)))]
         \<in> set (fst (read_rat (fst (GetAccessTechnologies m))))"
    by (simp add: read_rat_def)
  with h show "Log [S ''multiple access technologies found, using first one. Dropped:'',
           L (tl (fst (GetAccessTechnologies m)))] \<in> set (influx_modem m)"
    by (simp add: rat_log_in_influx_modem)
  from h show "Write (ModemStatus (push_tags m) (status_of m (fst (Get3gpp m))) (now m))
        \<in> set (influx_modem m)"
    by (simp add: status_line_written)
  show "filter is_header (influx_modem m) = []"
    by (rule influx_modem_no_header)
qed

theorem access_technology_cardinality_witness:
  "length (fst (GetAccessTechnologies modem_two_rats)) = 2 \<and>
   filter emitted (collect_modem [] parse_digits modem_two_rats) = [] \<and>
   push_ok modem_no_rat \<and> tag_rat (push_tags modem_no_rat) = [] \<and>
   Write (ModemStatus (push_tags modem_no_rat)
     (status_of modem_no_rat (fst (Get3gpp modem_no_rat))) (now modem_no_rat))
       \<in> set (influx_modem modem_no_rat) \<and>
   push_ok modem_two_rats \<and> tag_rat (push_tags modem_two_rats) = ''lte'' \<and>
   Log [S ''multiple access technologies found, using first one. Dropped:'', L [''Umts'']]
     \<in> set (influx_modem modem_two_rats) \<and>
   Write (ModemStatus (push_tags modem_two_rats)
     (status_of modem_two_rats (fst (Get3gpp modem_two_rats))) (now modem_two_rats))
       \<in> set (influx_modem modem_two_rats) \<and>
   filter is_header (influx_modem modem_two_rats) = []"
proof -
  have a: "fst (GetAccessTechnologies modem_two_rats) = [''Lte'', ''Umts'']"
    "fst (GetAccessTechnologies modem_no_rat) = []"
    by (simp_all add: modem_two_rats_def modem_no_rat_def example_defs)
  have b: "push_ok modem_two_rats" "push_ok modem_no_rat"
    by (simp_all add: push_ok_def modem_two_rats_def modem_no_rat_def example_defs)
  have c: "ToLower ''Lte'' = ''lte''"
    by (simp add: ToLower_def char_of_def bit_0)
  from a b c
    access_technology_cardinality [of modem_two_rats "[]" parse_digits]
    access_technology_cardinality [of modem_no_rat "[]" parse_digits]
  show ?thesis by simp
qed

text \<open>
  C10. The push handler changes the modem by nothing but the toggle of the signal
  reporting: the calls it makes that change a modem are \<open>Setup(1)\<close> and \<open>Setup(0)\<close>
  only, never \<open>Enable\<close>, \<open>Connect\<close>, \<open>Disconnect\<close> or \<open>DeleteBearer\<close>.
\<close>

theorem push_only_toggles_signal_reporting:
  "set (calls_of (influxHandler GetModems)) \<subseteq> {CallSetup 1, CallSetup 0}"
  using influx_loop_calls [of "fst GetModems"]
  by (simp add: influxHandler_def case_prod_beta option.case_eq_if)

theorem push_only_toggles_signal_reporting_witness:
  "calls_of (influxHandler ([modem_ok], None)) = [CallSetup 1, CallSetup 0] \<and>
   set [CallSetup 1, CallSetup 0] \<subseteq> {CallSetup 1, CallSetup 0}"
proof -
  have "calls_of (influxHandler ([modem_ok], None)) = [CallSetup 1, CallSetup 0]"
    by (simp add: push_defs parse_defs example_defs)
  with push_only_toggles_signal_reporting [of "([modem_ok], None)"] show ?thesis
    by simp
qed

end
